theory Spec2Isabelle
  imports Complex_Main "HOL-Library.Multiset"
begin

section \<open>Text and numbers of the host language\<close>

text \<open>
  The SQL integration composes query text with template strings and parses the
  text columns of the returned rows. Strings are character lists. A number is
  either \<open>NaN\<close> or a finite value; finite values are kept exact (the rounding
  of doubles and the infinities are outside this model). Numbers that are
  printed into query text (\<open>${days}\<close>, \<open>${cap}\<close>) are integers and print in
  decimal.
\<close>

definition sq :: string where
  "sq = [CHR 0x27]"

definition digit_char :: "nat \<Rightarrow> char" where
  "digit_char d = ''0123456789'' ! d"

function show_nat :: "nat \<Rightarrow> string" where
  "show_nat n = (if n < 10 then [digit_char n] else show_nat (n div 10) @ [digit_char (n mod 10)])"
  by pat_completeness auto
termination
  by (relation "measure id") auto

declare show_nat.simps [simp del]

definition show_int :: "int \<Rightarrow> string" where
  "show_int i = (if i < 0 then ''-'' @ show_nat (nat (- i)) else show_nat (nat i))"

text \<open>\<open>Array.prototype.join\<close>.\<close>

fun js_join :: "string \<Rightarrow> string list \<Rightarrow> string" where
  "js_join sep [] = []"
| "js_join sep [x] = x"
| "js_join sep (x # y # ys) = x @ sep @ js_join sep (y # ys)"

text \<open>\<open>s.match(/pat/)\<close> for a literal pattern: does \<open>pat\<close> occur in \<open>s\<close>.\<close>

fun contains :: "string \<Rightarrow> string \<Rightarrow> bool" where
  "contains pat [] = (pat = [])"
| "contains pat (c # cs) = (take (length pat) (c # cs) = pat \<or> contains pat cs)"

text \<open>\<open>s.replace(/pat/g, rep)\<close> for a literal, non-empty pattern.\<close>

function replace_all :: "string \<Rightarrow> string \<Rightarrow> string \<Rightarrow> string" where
  "replace_all pat rep s =
     (if pat = [] \<or> s = [] then s
      else if take (length pat) s = pat then rep @ replace_all pat rep (drop (length pat) s)
      else hd s # replace_all pat rep (tl s))"
  by pat_completeness auto
termination
  by (relation "measure (\<lambda>(pat, rep, s). length s)") auto

declare replace_all.simps [simp del]

text \<open>\<open>s.replace("T", " ")\<close>: a string pattern replaces the first occurrence only.\<close>

fun replace_first_char :: "char \<Rightarrow> char \<Rightarrow> string \<Rightarrow> string" where
  "replace_first_char a b [] = []"
| "replace_first_char a b (c # cs) = (if c = a then b # cs else c # replace_first_char a b cs)"

datatype jsnum = NaN | Num rat

text \<open>
  \<open>parseInt(s)\<close> without a radix: leading white space is skipped, a sign is
  read, a \<open>0x\<close> prefix selects radix 16, and the longest run of digits is the
  value; no digit at all gives \<open>NaN\<close> (\<open>None\<close> in \<open>parseInt_value\<close>).
\<close>

definition is_space :: "char \<Rightarrow> bool" where
  "is_space c = (c \<in> set [CHR 0x09, CHR 0x0A, CHR 0x0B, CHR 0x0C, CHR 0x0D, CHR 0x20])"

definition digit_of :: "char \<Rightarrow> nat option" where
  "digit_of c = (let n = (of_char c :: nat) in
     if 48 \<le> n \<and> n \<le> 57 then Some (n - 48)
     else if 97 \<le> n \<and> n \<le> 122 then Some (n - 87)
     else if 65 \<le> n \<and> n \<le> 90 then Some (n - 55)
     else None)"

definition is_digit :: "nat \<Rightarrow> char \<Rightarrow> bool" where
  "is_digit R c = (case digit_of c of None \<Rightarrow> False | Some d \<Rightarrow> d < R)"

definition digits_value :: "nat \<Rightarrow> string \<Rightarrow> nat" where
  "digits_value R ds = foldl (\<lambda>acc c. acc * R + the (digit_of c)) 0 ds"

definition parseInt_value :: "string \<Rightarrow> int option" where
  "parseInt_value s =
    (let S = dropWhile is_space s;
         neg = (take 1 S = ''-'');
         S1 = (if take 1 S = ''-'' \<or> take 1 S = ''+'' then drop 1 S else S);
         hex = (take 2 S1 = ''0x'' \<or> take 2 S1 = ''0X'');
         R = (if hex then 16 else 10);
         S2 = (if hex then drop 2 S1 else S1);
         Z = takeWhile (is_digit R) S2
     in if Z = [] then None
        else Some ((if neg then - 1 else 1) * int (digits_value R Z)))"

definition parseInt :: "string \<Rightarrow> jsnum" where
  "parseInt s = (case parseInt_value s of None \<Rightarrow> NaN | Some i \<Rightarrow> Num (of_int i))"

text \<open>\<open>x || 0\<close> on a number: \<open>NaN\<close> and zero are falsy.\<close>

fun or_zero :: "jsnum \<Rightarrow> jsnum" where
  "or_zero NaN = Num 0"
| "or_zero (Num v) = Num v"

text \<open>\<open>a || b\<close> on an optional string: \<open>undefined\<close> and the empty string are falsy.\<close>

fun or_else :: "string option \<Rightarrow> string \<Rightarrow> string" where
  "or_else None d = d"
| "or_else (Some []) d = d"
| "or_else (Some (c # cs)) d = c # cs"

section \<open>Data model\<close>

datatype metricType = Binomial | Count | Duration | Revenue

datatype userIdType = Anonymous | User | Either

record condition =
  c_column :: string
  c_operator :: string
  c_value :: string

record metric =
  metric_id :: string
  metric_name :: string
  metric_type :: metricType
  metric_table :: string
  metric_column :: string
  metric_conditions :: "condition list"
  metric_userIdType :: userIdType
  metric_userIdColumn :: "string option"
  metric_anonymousIdColumn :: "string option"
  metric_timestampColumn :: "string option"
  metric_cap :: int
  metric_earlyStart :: bool

text \<open>
  One section of the data source settings; every field is optional. The
  integration holds five sections (\<open>this.settings\<close> after the constructor
  has merged the defaults in).
\<close>

record sectionSettings =
  table :: "string option"
  userIdColumn :: "string option"
  anonymousIdColumn :: "string option"
  timestampColumn :: "string option"
  urlColumn :: "string option"
  experimentIdColumn :: "string option"
  variationColumn :: "string option"
  variationFormat :: "string option"

record dataSourceSettings =
  s_default :: sectionSettings
  s_experiments :: sectionSettings
  s_users :: sectionSettings
  s_pageviews :: sectionSettings
  s_identifies :: sectionSettings

datatype sectionName = Experiments | Pageviews | Users | Identifies | Default

fun settings_section :: "dataSourceSettings \<Rightarrow> sectionName \<Rightarrow> sectionSettings" where
  "settings_section s Experiments = s_experiments s"
| "settings_section s Pageviews = s_pageviews s"
| "settings_section s Users = s_users s"
| "settings_section s Identifies = s_identifies s"
| "settings_section s Default = s_default s"

text \<open>
  A row returned by the warehouse: column name to text. \<open>fld r c\<close> is
  \<open>r.c\<close>, \<open>None\<close> when the column is absent.
\<close>

type_synonym row = "(string \<times> string) list"

definition fld :: "row \<Rightarrow> string \<Rightarrow> string option" where
  "fld r c = map_of r c"

text \<open>
  The integration object: its settings, its abstract methods
  (\<open>percentile\<close>, \<open>runQuery\<close>, which may reject with an error), and the
  library and built-in functions the class calls: \<open>sqlFormatter.format\<close>,
  \<open>parseFloat\<close>, and the \<open>Date\<close> operations (\<open>'d\<close> is the type of dates):
  \<open>new Date(text)\<close>, \<open>toISOString\<close>, setting the time of day to midnight,
  moving a date by a number of days (\<open>setDate(getDate() + n)\<close>) and the
  current time \<open>new Date()\<close>.
\<close>

record ('d, 'e) integration =
  settings :: dataSourceSettings
  percentile :: "string \<Rightarrow> rat \<Rightarrow> string"
  runQuery :: "string \<Rightarrow> 'e + row list"
  sqlFormat :: "string \<Rightarrow> string"
  parseFloat :: "string \<Rightarrow> jsnum"
  newDate :: "string option \<Rightarrow> 'd"
  toISOString :: "'d \<Rightarrow> string"
  setMidnight :: "'d \<Rightarrow> 'd"
  addDays :: "'d \<Rightarrow> int \<Rightarrow> 'd"
  now :: 'd

section \<open>Dialect primitives (the defaults of the base class)\<close>

definition getFullTableName :: "string \<Rightarrow> string" where
  "getFullTableName t = t"

definition toTimestamp :: "('d, 'e) integration \<Rightarrow> 'd \<Rightarrow> string" where
  "toTimestamp env date = sq @ replace_first_char CHR ''T'' CHR '' '' (take 19 (toISOString env date)) @ sq"

definition addDateInterval :: "string \<Rightarrow> int \<Rightarrow> string" where
  "addDateInterval col days = col @ '' + INTERVAL '' @ sq @ show_int days @ '' days'' @ sq"

definition subtractHalfHour :: "string \<Rightarrow> string" where
  "subtractHalfHour col = col @ '' - INTERVAL '30 minutes'' @ sq"

definition regexMatch :: "string \<Rightarrow> string \<Rightarrow> string" where
  "regexMatch col regex = col @ '' ~ '' @ sq @ regex @ sq"

definition dateTrunc :: "string \<Rightarrow> string" where
  "dateTrunc col = ''date_trunc('day', '' @ col @ '')''"

definition dateDiff :: "string \<Rightarrow> string \<Rightarrow> string" where
  "dateDiff startCol endCol = ''datediff(day, '' @ startCol @ '', '' @ endCol @ '')''"

section \<open>Settings resolver\<close>

definition getUserIdColumn :: "('d, 'e) integration \<Rightarrow> metric option \<Rightarrow> sectionName \<Rightarrow> string" where
  "getUserIdColumn env m sec =
     or_else (case m of None \<Rightarrow> None | Some x \<Rightarrow> metric_userIdColumn x)
       (or_else (userIdColumn (settings_section (settings env) sec))
         (or_else (userIdColumn (s_default (settings env))) ''user_id''))"

definition getAnonymousIdColumn :: "('d, 'e) integration \<Rightarrow> metric option \<Rightarrow> sectionName \<Rightarrow> string" where
  "getAnonymousIdColumn env m sec =
     or_else (case m of None \<Rightarrow> None | Some x \<Rightarrow> metric_anonymousIdColumn x)
       (or_else (anonymousIdColumn (settings_section (settings env) sec))
         (or_else (anonymousIdColumn (s_default (settings env))) ''anonymous_id''))"

definition getTimestampColumn :: "('d, 'e) integration \<Rightarrow> metric option \<Rightarrow> sectionName \<Rightarrow> string" where
  "getTimestampColumn env m sec =
     or_else (case m of None \<Rightarrow> None | Some x \<Rightarrow> metric_timestampColumn x)
       (or_else (timestampColumn (settings_section (settings env) sec))
         (or_else (timestampColumn (s_default (settings env))) ''received_at''))"

definition getVariationColumn :: "('d, 'e) integration \<Rightarrow> string" where
  "getVariationColumn env = or_else (variationColumn (s_experiments (settings env))) ''variation_id''"

section \<open>Metric value expressions\<close>

text \<open>\<open>capValue\<close>: \<open>!cap\<close> holds for the cap 0.\<close>

definition capValue :: "int \<Rightarrow> string \<Rightarrow> string" where
  "capValue cap v = (if cap = 0 then v else ''LEAST('' @ show_int cap @ '', '' @ v @ '')'')"

definition getMetricColumn :: "metric \<Rightarrow> string \<Rightarrow> string" where
  "getMetricColumn m alias =
     (if metric_type m = Duration \<and> contains ''{alias}'' (metric_column m)
      then replace_all ''{alias}'' alias (metric_column m)
      else alias @ ''.'' @ metric_column m)"

definition getRawMetricSqlValue :: "metric \<Rightarrow> string \<Rightarrow> string" where
  "getRawMetricSqlValue m alias =
     (if metric_type m = Count then (if metric_column m \<noteq> [] then getMetricColumn m alias else ''1'')
      else if metric_type m = Duration then getMetricColumn m alias
      else if metric_type m = Revenue then getMetricColumn m alias
      else ''1'')"

definition getAggregateMetricSqlValue :: "metric \<Rightarrow> string \<Rightarrow> string" where
  "getAggregateMetricSqlValue m col =
     (if metric_type m = Count
        then capValue (metric_cap m)
               (''COUNT('' @ (if metric_column m \<noteq> [] then ''DISTINCT '' @ col else ''*'') @ '')'')
      else if metric_type m = Duration then capValue (metric_cap m) (''MAX('' @ col @ '')'')
      else if metric_type m = Revenue then capValue (metric_cap m) (''MAX('' @ col @ '')'')
      else ''1'')"

text \<open>
  The aggregate as an expression tree, with the text it prints as and its
  value on the rows of one user: \<open>vals\<close> are the (non-null) values of the
  aggregated column over the user's joined metric rows, of which there is at
  least one.
\<close>

datatype aggExpr = ACountStar | ACountDistinct string | AMax string | ALeast int aggExpr | AOne

fun renderAgg :: "aggExpr \<Rightarrow> string" where
  "renderAgg ACountStar = ''COUNT(*)''"
| "renderAgg (ACountDistinct col) = ''COUNT(DISTINCT '' @ col @ '')''"
| "renderAgg (AMax col) = ''MAX('' @ col @ '')''"
| "renderAgg (ALeast cap e) = ''LEAST('' @ show_int cap @ '', '' @ renderAgg e @ '')''"
| "renderAgg AOne = ''1''"

fun evalAgg :: "aggExpr \<Rightarrow> rat list \<Rightarrow> rat" where
  "evalAgg ACountStar vals = of_nat (length vals)"
| "evalAgg (ACountDistinct col) vals = of_nat (length (remdups vals))"
| "evalAgg (AMax col) vals = fold max (tl vals) (hd vals)"
| "evalAgg (ALeast cap e) vals = min (of_int cap) (evalAgg e vals)"
| "evalAgg AOne vals = 1"

definition capValueExpr :: "int \<Rightarrow> aggExpr \<Rightarrow> aggExpr" where
  "capValueExpr cap e = (if cap = 0 then e else ALeast cap e)"

definition aggregateMetricExpr :: "metric \<Rightarrow> string \<Rightarrow> aggExpr" where
  "aggregateMetricExpr m col =
     (if metric_type m = Count
        then capValueExpr (metric_cap m) (if metric_column m \<noteq> [] then ACountDistinct col else ACountStar)
      else if metric_type m = Duration then capValueExpr (metric_cap m) (AMax col)
      else if metric_type m = Revenue then capValueExpr (metric_cap m) (AMax col)
      else AOne)"

section \<open>Identity reconciliation and derived tables\<close>

definition getIdentifiesJoinSql :: "('d, 'e) integration \<Rightarrow> string \<Rightarrow> bool \<Rightarrow> string" where
  "getIdentifiesJoinSql env column userId =
     (let identifiesColumn =
            (if userId then getUserIdColumn env None Identifies
             else getAnonymousIdColumn env None Identifies)
      in ''JOIN '' @ getFullTableName (or_else (table (s_identifies (settings env))) ''identifies'')
         @ '' i ON (\<newline>      i.'' @ identifiesColumn @ '' = '' @ column @ ''\<newline>    )'')"

text \<open>
  The first part of \<open>getMetricCTE\<close>: the expression selected as \<open>user_id\<close>
  and the join clause, empty when the metric is read directly.
\<close>

definition metricCTE_userIdCol :: "('d, 'e) integration \<Rightarrow> metric \<Rightarrow> bool \<Rightarrow> string" where
  "metricCTE_userIdCol env m userId =
     (if userId \<and> metric_userIdType m = Anonymous then ''i.user_id''
      else if \<not> userId \<and> metric_userIdType m = User then ''i.user_id''
      else ''m.'' @ (if userId then getUserIdColumn env (Some m) Default
                      else getAnonymousIdColumn env (Some m) Default))"

definition metricCTE_join :: "('d, 'e) integration \<Rightarrow> metric \<Rightarrow> bool \<Rightarrow> string" where
  "metricCTE_join env m userId =
     (if userId \<and> metric_userIdType m = Anonymous
        then getIdentifiesJoinSql env (''m.'' @ getAnonymousIdColumn env (Some m) Default) False
      else if \<not> userId \<and> metric_userIdType m = User
        then getIdentifiesJoinSql env (''m.'' @ getUserIdColumn env (Some m) Default) True
      else [])"

definition metricCTE_timestampCol :: "('d, 'e) integration \<Rightarrow> metric \<Rightarrow> string" where
  "metricCTE_timestampCol env m = ''m.'' @ getTimestampColumn env (Some m) Default"

text \<open>The select list of the metric CTE: each expression with the name it is selected as.\<close>

definition metricCTE_columns ::
  "('d, 'e) integration \<Rightarrow> metric \<Rightarrow> int \<Rightarrow> bool \<Rightarrow> (string \<times> string) list" where
  "metricCTE_columns env m conversionWindowDays userId =
     [(metricCTE_userIdCol env m userId, ''user_id''),
      (getRawMetricSqlValue m ''m'', ''value''),
      (metricCTE_timestampCol env m, ''actual_start''),
      (addDateInterval (metricCTE_timestampCol env m) conversionWindowDays, ''conversion_end''),
      (subtractHalfHour (metricCTE_timestampCol env m), ''session_start'')]"

definition metricCTE_where :: "metric \<Rightarrow> string" where
  "metricCTE_where m =
     (if metric_conditions m \<noteq> []
      then ''WHERE '' @ js_join '' AND ''
             (map (\<lambda>c. ''m.'' @ c_column c @ '' '' @ c_operator c @ '' '' @ sq @ c_value c @ sq)
                  (metric_conditions m))
      else [])"

definition getMetricCTE :: "('d, 'e) integration \<Rightarrow> metric \<Rightarrow> int \<Rightarrow> bool \<Rightarrow> string" where
  "getMetricCTE env m conversionWindowDays userId =
     ''-- Metric ('' @ metric_name m @ '')\<newline>      SELECT\<newline>        ''
     @ js_join '',\<newline>        ''
         (map (\<lambda>(e, a). e @ '' as '' @ a) (metricCTE_columns env m conversionWindowDays userId))
     @ ''\<newline>      FROM\<newline>        '' @ getFullTableName (metric_table m) @ '' m\<newline>        ''
     @ metricCTE_join env m userId
     @ ''\<newline>      '' @ metricCTE_where m @ ''\<newline>    ''"

text \<open>Segment and dimension wrappers. A missing name prints as \<open>undefined\<close>.\<close>

fun js_str :: "string option \<Rightarrow> string" where
  "js_str None = ''undefined''"
| "js_str (Some s) = s"

definition getSegmentCTE :: "('d, 'e) integration \<Rightarrow> string \<Rightarrow> string option \<Rightarrow> bool \<Rightarrow> string" where
  "getSegmentCTE env sql name userId =
     (if \<not> userId
      then ''-- Segment ('' @ js_str name
           @ '')\<newline>      SELECT\<newline>        i.user_id,\<newline>        s.date\<newline>      FROM\<newline>        (''
           @ sql @ '') s\<newline>        '' @ getIdentifiesJoinSql env ''s.user_id'' True @ ''\<newline>      ''
      else ''-- Segment ('' @ js_str name @ '')\<newline>    '' @ sql @ ''\<newline>    '')"

record dimension =
  dimension_name :: string
  dimension_sql :: string

definition getDimensionCTE :: "('d, 'e) integration \<Rightarrow> dimension \<Rightarrow> bool \<Rightarrow> string" where
  "getDimensionCTE env d userId =
     (if \<not> userId
      then ''-- Dimension ('' @ dimension_name d
           @ '')\<newline>      SELECT\<newline>        i.user_id,\<newline>        d.value\<newline>      FROM\<newline>        (''
           @ dimension_sql d @ '') d\<newline>        '' @ getIdentifiesJoinSql env ''d.user_id'' True @ ''\<newline>      ''
      else ''-- Dimension ('' @ dimension_name d @ '')\<newline>    '' @ dimension_sql d @ ''\<newline>    '')"

text \<open>Parameters of the users query, extended for the metric value query.\<close>

record 'd usersQueryParams =
  p_from :: 'd
  p_to :: 'd
  p_name :: string
  p_userIdType :: userIdType
  p_conversionWindow :: int
  p_includeByDate :: bool
  p_urlRegex :: "string option"
  p_segmentQuery :: "string option"
  p_segmentName :: "string option"

record 'd metricValueParams = "'d usersQueryParams" +
  p_metric :: metric
  p_includePercentiles :: bool

definition dateOnly :: "('d, 'e) integration \<Rightarrow> 'd \<Rightarrow> 'd" where
  "dateOnly env orig = setMidnight env orig"

text \<open>A string used as a condition: \<open>undefined\<close>, \<open>null\<close> and the empty string are falsy.\<close>

fun truthy :: "string option \<Rightarrow> bool" where
  "truthy None = False"
| "truthy (Some s) = (s \<noteq> [])"

definition getPageUsersCTE ::
  "('d, 'e) integration \<Rightarrow> ('d, 'x) usersQueryParams_scheme \<Rightarrow> bool \<Rightarrow> string" where
  "getPageUsersCTE env params userId =
     (let timestampCol = getTimestampColumn env None Pageviews;
          userIdCol = (if userId then getUserIdColumn env None Pageviews
                       else getAnonymousIdColumn env None Pageviews)
      in ''-- Users visiting specific pages\<newline>    SELECT\<newline>      '' @ userIdCol
         @ '' as user_id,\<newline>      MIN('' @ timestampCol @ '') as actual_start,\<newline>      ''
         @ addDateInterval (''MIN('' @ timestampCol @ '')'') (p_conversionWindow params)
         @ '' as conversion_end,\<newline>      ''
         @ subtractHalfHour (''MIN('' @ timestampCol @ '')'')
         @ '' as session_start\<newline>    FROM\<newline>      ''
         @ getFullTableName (or_else (table (s_pageviews (settings env))) ''pages'')
         @ ''\<newline>    WHERE\<newline>      '' @ timestampCol @ '' >= ''
         @ toTimestamp env (dateOnly env (p_from params))
         @ ''\<newline>      AND '' @ timestampCol @ '' <= ''
         @ toTimestamp env (dateOnly env (p_to params))
         @ ''\<newline>      ''
         @ (if truthy (p_urlRegex params) \<and> p_urlRegex params \<noteq> Some ''.*''
            then ''AND '' @ regexMatch (or_else (urlColumn (s_pageviews (settings env))) ''path'')
                              (the (p_urlRegex params))
            else [])
         @ ''\<newline>    GROUP BY\<newline>      '' @ userIdCol @ ''\<newline>    '')"

text \<open>Looking a select-list entry up by the name it is selected as.\<close>

definition column_expr :: "(string \<times> string) list \<Rightarrow> string \<Rightarrow> string option" where
  "column_expr cols a = map_of (map (\<lambda>(e, a). (a, e)) cols) a"

text \<open>
  The conversion end as the specification words it: the event timestamp plus
  the conversion window taken as a number of hours.
\<close>

definition spec_conversion_end_hours :: "string \<Rightarrow> int \<Rightarrow> string" where
  "spec_conversion_end_hours col window = col @ '' + INTERVAL '' @ sq @ show_int window @ '' hours'' @ sq"

section \<open>Example inputs\<close>

definition no_settings :: sectionSettings where
  "no_settings = \<lparr>table = None, userIdColumn = None, anonymousIdColumn = None,
     timestampColumn = None, urlColumn = None, experimentIdColumn = None,
     variationColumn = None, variationFormat = None\<rparr>"

definition example_settings :: dataSourceSettings where
  "example_settings = \<lparr>s_default = no_settings, s_experiments = no_settings,
     s_users = no_settings, s_pageviews = no_settings, s_identifies = no_settings\<rparr>"

text \<open>
  An integration whose dates are already ISO strings and whose warehouse
  answers every query with the rows \<open>rows sql\<close>.
\<close>

definition example_env :: "(string \<Rightarrow> row list) \<Rightarrow> (string, string) integration" where
  "example_env rows = \<lparr>settings = example_settings,
     percentile = (\<lambda>col n. ''PERCENTILE('' @ col @ '', '' @ show_int \<lfloor>n * 100\<rfloor> @ '')''),
     runQuery = (\<lambda>sql. Inr (rows sql)),
     sqlFormat = (\<lambda>sql. sql),
     parseFloat = parseInt,
     newDate = (\<lambda>s. case s of None \<Rightarrow> ''Invalid Date'' | Some t \<Rightarrow> t),
     toISOString = (\<lambda>d. d),
     setMidnight = (\<lambda>d. take 11 d @ ''00:00:00.000Z''),
     addDays = (\<lambda>d n. d),
     now = ''2021-06-01T12:00:00.000Z''\<rparr>"

definition example_metric :: "metricType \<Rightarrow> userIdType \<Rightarrow> int \<Rightarrow> metric" where
  "example_metric ty idt cap = \<lparr>metric_id = ''met_1'', metric_name = ''Purchases'',
     metric_type = ty, metric_table = ''orders'', metric_column = ''amount'',
     metric_conditions = [], metric_userIdType = idt, metric_userIdColumn = None,
     metric_anonymousIdColumn = None, metric_timestampColumn = None, metric_cap = cap,
     metric_earlyStart = False\<rparr>"

section \<open>Metric value and users queries\<close>

definition percentileNumbers :: "rat list" where
  "percentileNumbers = [0.01, 0.05, 0.1, 0.2, 0.3, 0.4, 0.5, 0.6, 0.7, 0.8, 0.9, 0.95, 0.99]"

text \<open>
  \<open>p${Math.floor(n * 100)}\<close>. On the thirteen numbers above the product in
  doubles is the exact integer, so the exact floor is the name the code prints.
\<close>

definition percentileName :: "rat \<Rightarrow> string" where
  "percentileName n = ''p'' @ show_int \<lfloor>n * 100\<rfloor>"

text \<open>The percentile columns of the terminal select of \<open>getMetricValueQuery\<close>.\<close>

definition percentileColumnsSql :: "('d, 'e) integration \<Rightarrow> 'd metricValueParams \<Rightarrow> string" where
  "percentileColumnsSql env params =
     (if p_includePercentiles params \<and> metric_type (p_metric params) \<noteq> Binomial
      then '','' @ js_join ''\<newline>      ,''
                    (map (\<lambda>n. percentile env ''value'' n @ '' as '' @ percentileName n) percentileNumbers)
      else [])"

text \<open>The same columns in the per-date branch of the union.\<close>

definition datePercentileColumnsSql :: "'d metricValueParams \<Rightarrow> string" where
  "datePercentileColumnsSql params =
     (if p_includePercentiles params \<and> metric_type (p_metric params) \<noteq> Binomial
      then '','' @ js_join ''\<newline>      ,''
                    (map (\<lambda>n. ''0 as '' @ percentileName n) percentileNumbers)
      else [])"

text \<open>The derived tables of \<open>getMetricValueQuery\<close>, up to the terminal select.\<close>

definition metricValueQuery_with :: "('d, 'e) integration \<Rightarrow> 'd metricValueParams \<Rightarrow> string" where
  "metricValueQuery_with env params =
     (let userId = (p_userIdType params = User) in
      ''-- '' @ p_name params @ '' - '' @ metric_name (p_metric params)
      @ '' Metric\<newline>      WITH\<newline>        __users as ('' @ getPageUsersCTE env params userId
      @ '')\<newline>        ''
      @ (if truthy (p_segmentQuery params)
         then '', segment as (''
              @ getSegmentCTE env (the (p_segmentQuery params)) (p_segmentName params) userId @ '')''
         else [])
      @ ''\<newline>        , __metric as (''
      @ getMetricCTE env (p_metric params) (p_conversionWindow params) userId
      @ '')\<newline>        , __distinctUsers as (\<newline>          SELECT\<newline>            u.user_id,\<newline>            MIN(u.conversion_end) as conversion_end,\<newline>            MIN(u.session_start) as session_start,\<newline>            MIN(u.actual_start) as actual_start\<newline>          FROM\<newline>            __users u\<newline>            ''
      @ (if truthy (p_segmentQuery params)
         then ''JOIN segment s ON (s.user_id = u.user_id AND s.date <= u.actual_start)''
         else [])
      @ ''\<newline>          GROUP BY\<newline>            u.user_id\<newline>        )\<newline>        , __userMetric as (\<newline>          -- Add in the aggregate metric value for each user\<newline>          SELECT\<newline>            ''
      @ getAggregateMetricSqlValue (p_metric params) ''m.value''
      @ '' as value\<newline>          FROM\<newline>            __distinctUsers d\<newline>            JOIN __metric m ON (\<newline>              m.user_id = d.user_id\<newline>              AND m.actual_start >= d.''
      @ (if metric_earlyStart (p_metric params) then ''session_start'' else ''actual_start'')
      @ ''\<newline>              AND m.actual_start <= d.conversion_end\<newline>            )\<newline>          GROUP BY\<newline>            d.user_id\<newline>        )\<newline>        ''
      @ (if p_includeByDate params
         then ''\<newline>          , __userMetricDates as (\<newline>            -- Add in the aggregate metric value for each user\<newline>            SELECT\<newline>              ''
              @ dateTrunc ''d.actual_start'' @ '' as date,\<newline>              ''
              @ getAggregateMetricSqlValue (p_metric params) ''m.value''
              @ '' as value\<newline>            FROM\<newline>              __distinctUsers d\<newline>              JOIN __metric m ON (\<newline>                m.user_id = d.user_id\<newline>                AND m.actual_start >= d.''
              @ (if metric_earlyStart (p_metric params) then ''session_start'' else ''actual_start'')
              @ ''\<newline>                AND m.actual_start <= d.conversion_end\<newline>              )\<newline>            GROUP BY\<newline>              ''
              @ dateTrunc ''d.actual_start'' @ '',\<newline>              d.user_id\<newline>          )''
         else []))"

text \<open>The terminal select: the overall row.\<close>

definition metricValueQuery_select :: "('d, 'e) integration \<Rightarrow> 'd metricValueParams \<Rightarrow> string" where
  "metricValueQuery_select env params =
     ''\<newline>      SELECT\<newline>        ''
     @ (if p_includeByDate params then ''null as date,'' else [])
     @ ''\<newline>        COUNT(*) as count,\<newline>        AVG(value) as mean,\<newline>        STDDEV(value) as stddev\<newline>        ''
     @ percentileColumnsSql env params
     @ ''\<newline>      from\<newline>        __userMetric\<newline>      ''"

text \<open>The by-date branch: one row per date, appended with \<open>UNION\<close>.\<close>

definition metricValueQuery_union :: "'d metricValueParams \<Rightarrow> string" where
  "metricValueQuery_union params =
     (if p_includeByDate params
      then ''\<newline>        UNION SELECT\<newline>          date,\<newline>          COUNT(*) as count,\<newline>          AVG(value) as mean,\<newline>          STDDEV(value) as stddev\<newline>          ''
           @ datePercentileColumnsSql params
           @ ''\<newline>        FROM\<newline>          __userMetricDates d\<newline>        GROUP BY\<newline>          date\<newline>        ORDER BY\<newline>          date ASC\<newline>      ''
      else [])"

definition getMetricValueQuery :: "('d, 'e) integration \<Rightarrow> 'd metricValueParams \<Rightarrow> string" where
  "getMetricValueQuery env params =
     sqlFormat env
       (metricValueQuery_with env params @ metricValueQuery_select env params
        @ metricValueQuery_union params @ ''\<newline>      '')"

definition getUsersQuery :: "('d, 'e) integration \<Rightarrow> ('d, 'x) usersQueryParams_scheme \<Rightarrow> string" where
  "getUsersQuery env params =
     (let userId = (p_userIdType params = User) in
      sqlFormat env
       (''-- '' @ p_name params
        @ '' - Number of Users\<newline>      WITH\<newline>        __users as (''
        @ getPageUsersCTE env params userId @ '')\<newline>        ''
        @ (if truthy (p_segmentQuery params)
           then '', __segment as (''
                @ getSegmentCTE env (the (p_segmentQuery params)) (p_segmentName params) userId @ '')''
           else [])
        @ ''\<newline>      SELECT\<newline>        ''
        @ (if p_includeByDate params then ''null as date,'' else [])
        @ ''\<newline>        COUNT(DISTINCT u.user_id) as users\<newline>      FROM\<newline>        __users u\<newline>        ''
        @ (if truthy (p_segmentQuery params)
           then ''JOIN __segment s ON (s.user_id = u.user_id AND s.date <= u.actual_start)''
           else [])
        @ ''\<newline>\<newline>      ''
        @ (if p_includeByDate params
           then ''\<newline>        UNION SELECT\<newline>          '' @ dateTrunc ''u.actual_start''
                @ '' as date,\<newline>          COUNT(DISTINCT u.user_id) as users\<newline>        FROM\<newline>          __users u\<newline>          ''
                @ (if truthy (p_segmentQuery params)
                   then ''JOIN __segment s ON (s.user_id = u.user_id AND s.date <= u.actual_start)''
                   else [])
                @ ''\<newline>        GROUP BY\<newline>          '' @ dateTrunc ''u.actual_start''
                @ ''\<newline>        ORDER BY\<newline>          date asc\<newline>      ''
           else [])
        @ ''\<newline>      ''))"

definition example_params :: "metricType \<Rightarrow> bool \<Rightarrow> bool \<Rightarrow> string metricValueParams" where
  "example_params ty byDate pct = \<lparr>p_from = ''2021-05-01T09:30:00.000Z'', p_to = ''2021-05-31T09:30:00.000Z'',
     p_name = ''Report'', p_userIdType = User, p_conversionWindow = 3, p_includeByDate = byDate,
     p_urlRegex = None, p_segmentQuery = None, p_segmentName = None,
     p_metric = example_metric ty User 0, p_includePercentiles = pct\<rparr>"

section \<open>Result parser\<close>

text \<open>
  \<open>parseInt(x)\<close> and \<open>parseFloat(x)\<close> on a column that may be absent:
  \<open>undefined\<close> parses to \<open>NaN\<close>.
\<close>

definition parseInt_field :: "string option \<Rightarrow> jsnum" where
  "parseInt_field x = (case x of None \<Rightarrow> NaN | Some s \<Rightarrow> parseInt s)"

definition parseFloat_field :: "('d, 'e) integration \<Rightarrow> string option \<Rightarrow> jsnum" where
  "parseFloat_field env x = (case x of None \<Rightarrow> NaN | Some s \<Rightarrow> parseFloat env s)"

record usersDate =
  ud_date :: string
  ud_users :: jsnum

record usersResult =
  ur_users :: jsnum
  ur_dates :: "usersDate list option"

definition runUsersQuery_row :: "row \<Rightarrow> usersResult \<Rightarrow> usersResult" where
  "runUsersQuery_row r ret =
     (if truthy (fld r ''date'')
      then ret\<lparr>ur_dates := Some ((case ur_dates ret of None \<Rightarrow> [] | Some ds \<Rightarrow> ds)
                 @ [\<lparr>ud_date = the (fld r ''date''),
                     ud_users = or_zero (parseInt_field (fld r ''users''))\<rparr>])\<rparr>
      else ret\<lparr>ur_users := or_zero (parseInt_field (fld r ''users''))\<rparr>)"

definition runUsersQuery :: "('d, 'e) integration \<Rightarrow> string \<Rightarrow> 'e + usersResult" where
  "runUsersQuery env query =
     (case runQuery env query of
        Inl e \<Rightarrow> Inl e
      | Inr rows \<Rightarrow> Inr (fold runUsersQuery_row rows \<lparr>ur_users = Num 0, ur_dates = None\<rparr>))"

record metricValueDate =
  md_date :: string
  md_count :: jsnum
  md_mean :: jsnum
  md_stddev :: jsnum

record metricValueResult =
  mv_count :: jsnum
  mv_mean :: jsnum
  mv_stddev :: jsnum
  mv_percentiles :: "(string \<rightharpoonup> jsnum) option"
  mv_dates :: "metricValueDate list option"

text \<open>\<open>p.replace(/^p/, "")\<close>.\<close>

fun strip_p :: "string \<Rightarrow> string" where
  "strip_p [] = []"
| "strip_p (c # cs) = (if c = CHR ''p'' then cs else c # cs)"

text \<open>
  The rest of a row after \<open>date\<close>, \<open>count\<close>, \<open>mean\<close> and \<open>stddev\<close>
  are taken out: the percentile columns.
\<close>

definition row_rest :: "row \<Rightarrow> row" where
  "row_rest r = filter (\<lambda>(k, v). k \<notin> set [''date'', ''count'', ''mean'', ''stddev'']) r"

definition set_percentile :: "string \<times> string \<Rightarrow> metricValueResult \<Rightarrow> metricValueResult" where
  "set_percentile kv ret =
     ret\<lparr>mv_percentiles :=
           Some ((case mv_percentiles ret of None \<Rightarrow> Map.empty | Some ps \<Rightarrow> ps)
                 (strip_p (fst kv) \<mapsto> or_zero (parseInt (snd kv))))\<rparr>"

definition runMetricValueQuery_row ::
  "('d, 'e) integration \<Rightarrow> row \<Rightarrow> metricValueResult \<Rightarrow> metricValueResult" where
  "runMetricValueQuery_row env r ret =
     (if truthy (fld r ''date'')
      then ret\<lparr>mv_dates := Some ((case mv_dates ret of None \<Rightarrow> [] | Some ds \<Rightarrow> ds)
                 @ [\<lparr>md_date = the (fld r ''date''),
                     md_count = or_zero (parseInt_field (fld r ''count'')),
                     md_mean = or_zero (parseFloat_field env (fld r ''mean'')),
                     md_stddev = or_zero (parseFloat_field env (fld r ''stddev''))\<rparr>])\<rparr>
      else fold set_percentile (row_rest r)
             (ret\<lparr>mv_count := or_zero (parseInt_field (fld r ''count'')),
                  mv_mean := or_zero (parseFloat_field env (fld r ''mean'')),
                  mv_stddev := or_zero (parseFloat_field env (fld r ''stddev''))\<rparr>))"

definition runMetricValueQuery :: "('d, 'e) integration \<Rightarrow> string \<Rightarrow> 'e + metricValueResult" where
  "runMetricValueQuery env query =
     (case runQuery env query of
        Inl e \<Rightarrow> Inl e
      | Inr rows \<Rightarrow>
          Inr (fold (runMetricValueQuery_row env) rows
                 \<lparr>mv_count = Num 0, mv_mean = Num 0, mv_stddev = Num 0,
                  mv_percentiles = None, mv_dates = None\<rparr>))"

record 'd pastExperiment =
  pe_users :: jsnum
  pe_end_date :: 'd
  pe_start_date :: 'd
  pe_experiment_id :: "string option"
  pe_variation_id :: "string option"

definition runPastExperimentQuery_row :: "('d, 'e) integration \<Rightarrow> row \<Rightarrow> 'd pastExperiment" where
  "runPastExperimentQuery_row env r =
     \<lparr>pe_users = parseInt_field (fld r ''users''),
      pe_end_date = newDate env (fld r ''end_date''),
      pe_start_date = newDate env (fld r ''start_date''),
      pe_experiment_id = fld r ''experiment_id'',
      pe_variation_id = fld r ''variation_id''\<rparr>"

text \<open>The result is \<open>{ experiments: [...] }\<close>, one entry per row.\<close>

definition runPastExperimentQuery ::
  "('d, 'e) integration \<Rightarrow> string \<Rightarrow> 'e + 'd pastExperiment list" where
  "runPastExperimentQuery env query =
     (case runQuery env query of
        Inl e \<Rightarrow> Inl e
      | Inr rows \<Rightarrow> Inr (map (runPastExperimentQuery_row env) rows))"

section \<open>Impact estimation\<close>

record segment =
  segment_name :: string
  segment_sql :: string

record impactEstimationResult =
  ie_query :: string
  ie_users :: jsnum
  ie_value :: jsnum
  ie_metricTotal :: jsnum

fun js_mul :: "jsnum \<Rightarrow> jsnum \<Rightarrow> jsnum" where
  "js_mul (Num a) (Num b) = Num (a * b)"
| "js_mul _ _ = NaN"

fun js_div :: "jsnum \<Rightarrow> rat \<Rightarrow> jsnum" where
  "js_div (Num a) d = Num (a / d)"
| "js_div NaN d = NaN"

text \<open>\<open>segment?.sql || null\<close> and \<open>segment?.name\<close>.\<close>

definition segment_query :: "segment option \<Rightarrow> string option" where
  "segment_query seg =
     (case seg of None \<Rightarrow> None
      | Some s \<Rightarrow> (if segment_sql s \<noteq> [] then Some (segment_sql s) else None))"

text \<open>
  The three queries of \<open>getImpactEstimation\<close>: traffic on the selected pages
  and segment, the metric on the entire site, the metric on the selected pages
  and segment. Both \<open>new Date()\<close> calls read the same clock value \<open>now\<close>.
\<close>

definition impactEstimation_usersSql ::
  "('d, 'e) integration \<Rightarrow> string \<Rightarrow> metric \<Rightarrow> segment option \<Rightarrow> string" where
  "impactEstimation_usersSql env urlRegex m seg =
     getUsersQuery env
       \<lparr>p_from = addDays env (now env) (- 30 - 3), p_to = addDays env (now env) (- 3),
        p_name = ''Traffic - Selected Pages and Segment'',
        p_userIdType = metric_userIdType m, p_conversionWindow = 3, p_includeByDate = False,
        p_urlRegex = Some urlRegex, p_segmentQuery = segment_query seg,
        p_segmentName = map_option segment_name seg\<rparr>"

definition impactEstimation_metricSql ::
  "('d, 'e) integration \<Rightarrow> string \<Rightarrow> metric \<Rightarrow> segment option \<Rightarrow> string" where
  "impactEstimation_metricSql env urlRegex m seg =
     getMetricValueQuery env
       \<lparr>p_from = addDays env (now env) (- 30 - 3), p_to = addDays env (now env) (- 3),
        p_name = ''Metric Value - Entire Site'',
        p_userIdType = metric_userIdType m, p_conversionWindow = 3, p_includeByDate = False,
        p_urlRegex = None, p_segmentQuery = None, p_segmentName = None,
        p_metric = m, p_includePercentiles = False\<rparr>"

definition impactEstimation_valueSql ::
  "('d, 'e) integration \<Rightarrow> string \<Rightarrow> metric \<Rightarrow> segment option \<Rightarrow> string" where
  "impactEstimation_valueSql env urlRegex m seg =
     getMetricValueQuery env
       \<lparr>p_from = addDays env (now env) (- 30 - 3), p_to = addDays env (now env) (- 3),
        p_name = ''Metric Value - Selected Pages and Segment'',
        p_userIdType = metric_userIdType m, p_conversionWindow = 3, p_includeByDate = False,
        p_urlRegex = Some urlRegex, p_segmentQuery = segment_query seg,
        p_segmentName = map_option segment_name seg,
        p_metric = m, p_includePercentiles = False\<rparr>"

text \<open>
  \<open>Promise.all\<close> over the three \<open>runQuery\<close> calls: a rejected query rejects
  the whole call (here the first rejected one in the order of the list).
\<close>

definition getImpactEstimation ::
  "('d, 'e) integration \<Rightarrow> string \<Rightarrow> metric \<Rightarrow> segment option \<Rightarrow> 'e + impactEstimationResult" where
  "getImpactEstimation env urlRegex m seg =
     (let numDays = 30;
          usersSql = impactEstimation_usersSql env urlRegex m seg;
          metricSql = impactEstimation_metricSql env urlRegex m seg;
          valueSql = impactEstimation_valueSql env urlRegex m seg
      in case runQuery env usersSql of Inl e \<Rightarrow> Inl e | Inr users \<Rightarrow>
         (case runQuery env metricSql of Inl e \<Rightarrow> Inl e | Inr metricTotal \<Rightarrow>
         (case runQuery env valueSql of Inl e \<Rightarrow> Inl e | Inr val \<Rightarrow>
           (let formatted = js_join '';\<newline>\<newline>''
                              (map (sqlFormat env) [usersSql, metricSql, valueSql]) @ '';''
            in if users \<noteq> [] \<and> metricTotal \<noteq> [] \<and> val \<noteq> []
               then Inr \<lparr>ie_query = formatted,
                         ie_users = js_div (or_zero (parseInt_field (fld (hd users) ''users''))) numDays,
                         ie_value =
                           js_div (or_zero (js_mul (parseInt_field (fld (hd val) ''count''))
                                                    (parseFloat_field env (fld (hd val) ''mean'')))) numDays,
                         ie_metricTotal =
                           js_div (or_zero (js_mul (parseInt_field (fld (hd metricTotal) ''count''))
                                                    (parseFloat_field env (fld (hd metricTotal) ''mean'')))) numDays\<rparr>
               else Inr \<lparr>ie_query = formatted, ie_users = Num 0, ie_value = Num 0,
                         ie_metricTotal = Num 0\<rparr>))))"

section \<open>Experiment queries\<close>

record variation =
  v_key :: string

record experimentInterface =
  exp_trackingKey :: string
  exp_userIdType :: userIdType
  exp_variations :: "variation list"
  exp_conversionWindowDays :: int
  exp_sqlOverride :: "(string \<rightharpoonup> string) option"

record 'd experimentPhase =
  ph_dateStarted :: 'd
  ph_dateEnded :: "'d option"

definition getExperimentCTE ::
  "('d, 'e) integration \<Rightarrow> experimentInterface \<Rightarrow> 'd experimentPhase \<Rightarrow> bool \<Rightarrow> string" where
  "getExperimentCTE env expt phase userId =
     (let userIdCol =
            (if userId \<and> exp_userIdType expt = Anonymous then ''i.user_id''
             else if \<not> userId \<and> exp_userIdType expt = User then ''i.user_id''
             else if userId then getUserIdColumn env None Experiments
             else getAnonymousIdColumn env None Experiments);
          join =
            (if userId \<and> exp_userIdType expt = Anonymous
               then getIdentifiesJoinSql env (''m.'' @ getAnonymousIdColumn env None Experiments) False
             else if \<not> userId \<and> exp_userIdType expt = User
               then getIdentifiesJoinSql env (''m.'' @ getUserIdColumn env None Experiments) True
             else []);
          timestampCol = ''e.'' @ getTimestampColumn env None Experiments
      in ''-- Viewed Experiment\<newline>    SELECT\<newline>      '' @ userIdCol
         @ '' as user_id,\<newline>      e.'' @ getVariationColumn env
         @ '' as variation,\<newline>      '' @ timestampCol
         @ '' as actual_start,\<newline>      ''
         @ addDateInterval timestampCol (exp_conversionWindowDays expt)
         @ '' as conversion_end,\<newline>      '' @ subtractHalfHour timestampCol
         @ '' as session_start\<newline>    FROM\<newline>      ''
         @ getFullTableName (or_else (table (s_experiments (settings env))) ''experiment_viewed'')
         @ '' e\<newline>      '' @ join @ ''\<newline>    WHERE\<newline>      e.''
         @ or_else (experimentIdColumn (s_experiments (settings env))) ''experiment_id''
         @ '' = '' @ sq @ exp_trackingKey expt @ sq @ ''\<newline>      AND '' @ timestampCol @ '' >= ''
         @ toTimestamp env (ph_dateStarted phase) @ ''\<newline>      ''
         @ (case ph_dateEnded phase of
              Some ended \<Rightarrow> ''AND '' @ timestampCol @ '' <= '' @ toTimestamp env ended
            | None \<Rightarrow> [])
         @ ''\<newline>    '')"

text \<open>
  The placeholders of a raw override, \<open>/{{\s*name\s*}}/g\<close>: the text left
  after a match at the start of \<open>s\<close>, and the replacement of every match.
  The replacement text is inserted as it is.
\<close>

definition match_placeholder :: "string \<Rightarrow> string \<Rightarrow> string option" where
  "match_placeholder name s =
     (if take 2 s = ''{{''
      then (let s1 = dropWhile is_space (drop 2 s)
            in if take (length name) s1 = name
               then (let s2 = dropWhile is_space (drop (length name) s1)
                     in if take 2 s2 = ''}}'' then Some (drop 2 s2) else None)
               else None)
      else None)"

function replace_placeholder :: "string \<Rightarrow> string \<Rightarrow> string \<Rightarrow> string" where
  "replace_placeholder name rep s =
     (if s = [] then []
      else case match_placeholder name s of
             Some rest \<Rightarrow> rep @ replace_placeholder name rep rest
           | None \<Rightarrow> hd s # replace_placeholder name rep (tl s))"
  by pat_completeness auto
termination
proof (relation "measure (\<lambda>(name, rep, s). length s)")
  show "wf (measure (\<lambda>(name, rep, s). length s))"
    by simp
next
  fix name rep s :: string and rest :: string
  assume "s \<noteq> []" and m: "match_placeholder name s = Some rest"
  define s1 where "s1 = dropWhile is_space (drop 2 s)"
  define s2 where "s2 = dropWhile is_space (drop (length name) s1)"
  from m have open_braces: "take 2 s = ''{{''" and rest: "rest = drop 2 s2"
    by (auto simp add: match_placeholder_def Let_def s1_def s2_def split: if_splits)
  from open_braces have "2 \<le> length s"
    by (cases s; cases "tl s") auto
  moreover have "length s2 \<le> length s1"
    unfolding s2_def
    by (rule order_trans [OF length_dropWhile_le]) simp
  moreover have "length s1 \<le> length s - 2"
    unfolding s1_def
    by (rule order_trans [OF length_dropWhile_le]) simp
  ultimately have "length rest < length s"
    using rest by simp
  then show "((name, rep, rest), (name, rep, s)) \<in> measure (\<lambda>(name, rep, s). length s)"
    by simp
next
  fix name rep s :: string
  assume "s \<noteq> []"
  then show "((name, rep, tl s), (name, rep, s)) \<in> measure (\<lambda>(name, rep, s). length s)"
    by (cases s) simp_all
qed

declare replace_placeholder.simps [simp del]

definition sqlOverride_text ::
  "('d, 'e) integration \<Rightarrow> experimentInterface \<Rightarrow> 'd experimentPhase \<Rightarrow> string \<Rightarrow> string" where
  "sqlOverride_text env expt phase override =
     replace_placeholder ''experimentKey'' (sq @ exp_trackingKey expt @ sq)
       (replace_placeholder ''dateEnd''
          (toTimestamp env (case ph_dateEnded phase of Some ended \<Rightarrow> ended | None \<Rightarrow> now env))
          (replace_placeholder ''dateStart'' (toTimestamp env (ph_dateStarted phase)) override))"

definition sqlOverride_lookup :: "experimentInterface \<Rightarrow> string \<Rightarrow> string option" where
  "sqlOverride_lookup expt k = (case exp_sqlOverride expt of None \<Rightarrow> None | Some ov \<Rightarrow> ov k)"

definition activationJoin :: "metric option \<Rightarrow> string" where
  "activationJoin activationMetric =
     (if activationMetric \<noteq> None
      then ''\<newline>          JOIN __activationMetric a ON (\<newline>            a.user_id = e.user_id\<newline>            AND a.actual_start >= e.actual_start\<newline>            AND a.actual_start <= e.conversion_end\<newline>          )''
      else [])"

definition dimensionCTE_sql :: "('d, 'e) integration \<Rightarrow> dimension option \<Rightarrow> bool \<Rightarrow> string" where
  "dimensionCTE_sql env dimn userId =
     (case dimn of Some d \<Rightarrow> '', __dimension as ('' @ getDimensionCTE env d userId @ '')'' | None \<Rightarrow> [])"

definition activationCTE_sql ::
  "('d, 'e) integration \<Rightarrow> experimentInterface \<Rightarrow> metric option \<Rightarrow> bool \<Rightarrow> string" where
  "activationCTE_sql env expt activationMetric userId =
     (case activationMetric of
        Some a \<Rightarrow> '', __activationMetric as (''
                   @ getMetricCTE env a (exp_conversionWindowDays expt) userId @ '')''
      | None \<Rightarrow> [])"

definition getExperimentUsersSql ::
  "('d, 'e) integration \<Rightarrow> experimentInterface \<Rightarrow> 'd experimentPhase \<Rightarrow> metric option \<Rightarrow> dimension option
     \<Rightarrow> string" where
  "getExperimentUsersSql env expt phase activationMetric dimn =
     (case sqlOverride_lookup expt ''users'' of
        Some override \<Rightarrow> sqlOverride_text env expt phase override
      | None \<Rightarrow>
         (let userId = (exp_userIdType expt = User)
          in ''-- Number of users in experiment\<newline>    WITH\<newline>      __experiment as (''
             @ getExperimentCTE env expt phase userId @ '')\<newline>      ''
             @ dimensionCTE_sql env dimn userId @ ''\<newline>      ''
             @ activationCTE_sql env expt activationMetric userId
             @ ''\<newline>      , __distinctUsers as (\<newline>        -- One row per user/dimension/variation\<newline>        SELECT\<newline>          e.user_id,\<newline>          e.variation,\<newline>          ''
             @ (if dimn \<noteq> None then ''d.value'' else sq @ ''All'' @ sq)
             @ '' as dimension\<newline>        FROM\<newline>          __experiment e\<newline>          ''
             @ (if dimn \<noteq> None then ''JOIN __dimension d ON (d.user_id = e.user_id)'' else [])
             @ ''\<newline>          '' @ activationJoin activationMetric
             @ ''\<newline>        GROUP BY\<newline>          variation, dimension, e.user_id\<newline>      )\<newline>    -- Count of distinct users in experiment per variation/dimension\<newline>    SELECT\<newline>      variation,\<newline>      dimension,\<newline>      COUNT(*) as users\<newline>    FROM\<newline>      __distinctUsers\<newline>    GROUP BY\<newline>      variation,\<newline>      dimension\<newline>    ''))"

fun metricType_text :: "metricType \<Rightarrow> string" where
  "metricType_text Binomial = ''binomial''"
| "metricType_text Count = ''count''"
| "metricType_text Duration = ''duration''"
| "metricType_text Revenue = ''revenue''"

definition getExperimentMetricSql ::
  "('d, 'e) integration \<Rightarrow> metric \<Rightarrow> experimentInterface \<Rightarrow> 'd experimentPhase \<Rightarrow> metric option
     \<Rightarrow> dimension option \<Rightarrow> string" where
  "getExperimentMetricSql env m expt phase activationMetric dimn =
     (case sqlOverride_lookup expt (metric_id m) of
        Some override \<Rightarrow> sqlOverride_text env expt phase override
      | None \<Rightarrow>
         (let userId = (exp_userIdType expt = User);
              ae = (if activationMetric \<noteq> None then ''a'' else ''e'')
          in ''-- '' @ metric_name m @ '' ('' @ metricType_text (metric_type m)
             @ '')\<newline>    WITH\<newline>      __experiment as (''
             @ getExperimentCTE env expt phase userId
             @ '')\<newline>      , __metric as (''
             @ getMetricCTE env m (exp_conversionWindowDays expt) userId @ '')\<newline>      ''
             @ dimensionCTE_sql env dimn userId @ ''\<newline>      ''
             @ activationCTE_sql env expt activationMetric userId
             @ ''\<newline>      , __distinctUsers as (\<newline>        -- One row per user/dimension/variation\<newline>        SELECT\<newline>          e.user_id,\<newline>          e.variation,\<newline>          ''
             @ (if dimn \<noteq> None then ''d.value'' else sq @ ''All'' @ sq)
             @ '' as dimension,\<newline>          MIN('' @ ae
             @ ''.actual_start) as actual_start,\<newline>          MIN('' @ ae
             @ ''.session_start) as session_start,\<newline>          MIN('' @ ae
             @ ''.conversion_end) as conversion_end\<newline>        FROM\<newline>          __experiment e\<newline>          ''
             @ (if dimn \<noteq> None then ''JOIN __dimension d ON (d.user_id = e.user_id)'' else [])
             @ ''\<newline>          '' @ activationJoin activationMetric
             @ ''\<newline>        GROUP BY\<newline>          variation, dimension, e.user_id\<newline>      )\<newline>      , __userMetric as (\<newline>        -- Add in the aggregate metric value for each user\<newline>        SELECT\<newline>          d.variation,\<newline>          d.dimension,\<newline>          ''
             @ getAggregateMetricSqlValue m ''m.value''
             @ '' as value\<newline>        FROM\<newline>          __distinctUsers d\<newline>          JOIN __metric m ON (\<newline>            m.user_id = d.user_id\<newline>            AND m.actual_start >= d.''
             @ (if metric_earlyStart m then ''session_start'' else ''actual_start'')
             @ ''\<newline>            AND m.actual_start <= d.conversion_end\<newline>          )\<newline>        GROUP BY\<newline>          variation, dimension, d.user_id\<newline>      )\<newline>    -- Sum all user metrics together to get a total per variation/dimension\<newline>    SELECT\<newline>      variation,\<newline>      dimension,\<newline>      COUNT(*) as count,\<newline>      AVG(value) as mean,\<newline>      STDDEV(value) as stddev\<newline>    FROM\<newline>      __userMetric\<newline>    GROUP BY\<newline>      variation,\<newline>      dimension\<newline>    ''))"

section \<open>Experiment analysis orchestrator\<close>

record variationMetricResult =
  vm_metric :: string
  vm_count :: jsnum
  vm_mean :: jsnum
  vm_stddev :: jsnum

text \<open>
  The resolved variation index: a key that is not in the key map gives
  \<open>undefined\<close>, text that is not an integer gives \<open>NaN\<close>.
\<close>

datatype varIndex = Undefined | NotANumber | Index int

record variationData =
  vd_variation :: varIndex
  vd_users :: jsnum
  vd_metrics :: "variationMetricResult list"

text \<open>
  The array held for one dimension value is written at \<open>obj[variation]\<close>:
  an integer from 0 on is an array index; any other value names a property
  of the array object by its text (\<open>"undefined"\<close>, \<open>"NaN"\<close>, or the
  digits of an integer that is not an index). Indices that were never written
  are holes.
\<close>

datatype pkey = Idx nat | Named varIndex

type_synonym variationArray = "pkey \<rightharpoonup> variationData"

definition propertyKey :: "varIndex \<Rightarrow> pkey" where
  "propertyKey v =
     (case v of
        Index i \<Rightarrow> (if 0 \<le> i \<and> i < 4294967295 then Idx (nat i) else Named v)
      | _ \<Rightarrow> Named v)"

text \<open>
  The state of one call of \<open>getExperimentResults\<close>: \<open>dimensionMap\<close>, a
  \<open>Map\<close> (its keys in insertion order, and the array stored under each key),
  and the lines written by \<open>console.log("Unexpected variation", variation)\<close>,
  each recorded by the variation text it reports.
\<close>

record mergeState =
  ms_keys :: "string option list"
  ms_get :: "string option \<rightharpoonup> variationArray"
  ms_log :: "string option list"

definition initialState :: mergeState where
  "initialState = \<lparr>ms_keys = [], ms_get = Map.empty, ms_log = []\<rparr>"

text \<open>
  \<open>getDimensionData(key, variation)\<close> creates the array for \<open>key\<close> and the
  entry \<open>obj[variation]\<close> when they are missing and returns the entry, which
  the caller then changes in place; \<open>change\<close> is that change.
\<close>

definition getDimensionData ::
  "string option \<Rightarrow> varIndex \<Rightarrow> (variationData \<Rightarrow> variationData) \<Rightarrow> mergeState \<Rightarrow> mergeState" where
  "getDimensionData key variation change st =
     (let obj = (case ms_get st key of None \<Rightarrow> Map.empty | Some a \<Rightarrow> a);
          data = (case obj (propertyKey variation) of
                    None \<Rightarrow> \<lparr>vd_variation = variation, vd_users = Num 0, vd_metrics = []\<rparr>
                  | Some d \<Rightarrow> d)
      in st\<lparr>ms_keys := (if ms_get st key = None then ms_keys st @ [key] else ms_keys st),
            ms_get := (ms_get st)(key \<mapsto> obj(propertyKey variation \<mapsto> change data))\<rparr>)"

text \<open>\<open>variationKeyMap\<close>: each variation key to its position, a later duplicate winning.\<close>

definition variationKeyMap :: "experimentInterface \<Rightarrow> (string \<rightharpoonup> nat)" where
  "variationKeyMap expt =
     fold (\<lambda>(v, i) m. m(v_key v \<mapsto> i))
          (zip (exp_variations expt) [0..<length (exp_variations expt)]) Map.empty"

definition resolveVariation ::
  "('d, 'e) integration \<Rightarrow> experimentInterface \<Rightarrow> string option \<Rightarrow> varIndex" where
  "resolveVariation env expt variation =
     (if variationFormat (s_experiments (settings env)) = Some ''key''
      then (case variation of
              None \<Rightarrow> Undefined
            | Some v \<Rightarrow> (case variationKeyMap expt v of None \<Rightarrow> Undefined | Some i \<Rightarrow> Index (int i)))
      else (case variation of
              None \<Rightarrow> NotANumber
            | Some v \<Rightarrow> (case parseInt_value v of None \<Rightarrow> NotANumber | Some i \<Rightarrow> Index i)))"

text \<open>
  \<open>varIndex < 0 || varIndex >= experiment.variations.length\<close>: both
  comparisons are false on \<open>undefined\<close> and on \<open>NaN\<close>.
\<close>

definition unexpectedVariation :: "varIndex \<Rightarrow> nat \<Rightarrow> bool" where
  "unexpectedVariation v n = (case v of Index i \<Rightarrow> i < 0 \<or> i \<ge> int n | _ \<Rightarrow> False)"

text \<open>One row of a metric query, and one row of the users query.\<close>

definition metricRow ::
  "('d, 'e) integration \<Rightarrow> experimentInterface \<Rightarrow> metric \<Rightarrow> row \<Rightarrow> mergeState \<Rightarrow> mergeState" where
  "metricRow env expt m r st =
     (let varIndex = resolveVariation env expt (fld r ''variation'')
      in if unexpectedVariation varIndex (length (exp_variations expt))
         then st\<lparr>ms_log := ms_log st @ [fld r ''variation'']\<rparr>
         else getDimensionData (fld r ''dimension'') varIndex
                (\<lambda>data. data\<lparr>vd_metrics := vd_metrics data @
                    [\<lparr>vm_metric = metric_id m,
                      vm_count = or_zero (parseInt_field (fld r ''count'')),
                      vm_mean = or_zero (parseFloat_field env (fld r ''mean'')),
                      vm_stddev = or_zero (parseFloat_field env (fld r ''stddev''))\<rparr>]\<rparr>) st)"

definition usersRow ::
  "('d, 'e) integration \<Rightarrow> experimentInterface \<Rightarrow> row \<Rightarrow> mergeState \<Rightarrow> mergeState" where
  "usersRow env expt r st =
     (let varIndex = resolveVariation env expt (fld r ''variation'')
      in if unexpectedVariation varIndex (length (exp_variations expt))
         then st\<lparr>ms_log := ms_log st @ [fld r ''variation'']\<rparr>
         else getDimensionData (fld r ''dimension'') varIndex
                (\<lambda>data. data\<lparr>vd_users := or_zero (parseInt_field (fld r ''users''))\<rparr>) st)"

record dimensionResult =
  dr_dimension :: "string option"
  dr_variations :: variationArray

record experimentResults =
  er_results :: "dimensionResult list"
  er_query :: string

text \<open>
  The queries are issued in the order of \<open>metrics\<close>, the users query last;
  query \<open>i\<close> is metric \<open>i\<close> and query \<open>length metrics\<close> is the users query.
\<close>

definition experimentQueries ::
  "('d, 'e) integration \<Rightarrow> experimentInterface \<Rightarrow> 'd experimentPhase \<Rightarrow> metric list
     \<Rightarrow> metric option \<Rightarrow> dimension option \<Rightarrow> string list" where
  "experimentQueries env expt phase metrics activationMetric dimn =
     map (\<lambda>m. getExperimentMetricSql env m expt phase activationMetric dimn) metrics
     @ [getExperimentUsersSql env expt phase activationMetric dimn]"

text \<open>
  When query \<open>i\<close> completes, its rows are merged in one go
  (\<open>rows.forEach\<close> after the \<open>await\<close>).
\<close>

definition completeQuery ::
  "('d, 'e) integration \<Rightarrow> experimentInterface \<Rightarrow> metric list \<Rightarrow> row list list
     \<Rightarrow> nat \<Rightarrow> mergeState \<Rightarrow> mergeState" where
  "completeQuery env expt metrics responses i st =
     (if i < length metrics then fold (metricRow env expt (metrics ! i)) (responses ! i) st
      else if i = length metrics then fold (usersRow env expt) (responses ! i) st
      else st)"

fun first_error :: "('e + 'a) list \<Rightarrow> 'e option" where
  "first_error [] = None"
| "first_error (Inl e # rs) = Some e"
| "first_error (Inr x # rs) = first_error rs"

fun response_rows :: "'e + row list \<Rightarrow> row list" where
  "response_rows (Inl e) = []"
| "response_rows (Inr rows) = rows"

definition resultsOf :: "mergeState \<Rightarrow> dimensionResult list" where
  "resultsOf st =
     map (\<lambda>k. \<lparr>dr_dimension = k,
                dr_variations = (case ms_get st k of None \<Rightarrow> Map.empty | Some a \<Rightarrow> a)\<rparr>)
         (ms_keys st)"

text \<open>
  \<open>getExperimentResults\<close>. The queries run concurrently; \<open>order\<close> is the
  order in which they complete, a permutation of \<open>[0..<length metrics + 1]\<close>.
  A rejected query rejects the call (\<open>Promise.all\<close>), with the error of the
  first query to fail. The value returned is the results together with the
  diagnostics written to the console.
\<close>

definition getExperimentResults ::
  "('d, 'e) integration \<Rightarrow> experimentInterface \<Rightarrow> 'd experimentPhase \<Rightarrow> metric list
     \<Rightarrow> metric option \<Rightarrow> dimension option \<Rightarrow> nat list
     \<Rightarrow> 'e + experimentResults \<times> string option list" where
  "getExperimentResults env expt phase metrics activationMetric dimn order =
     (let query = experimentQueries env expt phase metrics activationMetric dimn;
          answers = map (runQuery env) query
      in case first_error (map (\<lambda>i. answers ! i) order) of
           Some e \<Rightarrow> Inl e
         | None \<Rightarrow>
            (let st = fold (completeQuery env expt metrics (map response_rows answers)) order
                        initialState
             in Inr (\<lparr>er_results = resultsOf st,
                       er_query = js_join '';\<newline>\<newline>'' (map (sqlFormat env) query) @ '';''\<rparr>,
                     ms_log st)))"

definition example_env_format :: "string \<Rightarrow> (string \<Rightarrow> row list) \<Rightarrow> (string, string) integration" where
  "example_env_format fmt rows =
     (example_env rows)\<lparr>settings :=
        example_settings\<lparr>s_experiments := no_settings\<lparr>variationFormat := Some fmt\<rparr>\<rparr>\<rparr>"

definition example_experiment :: experimentInterface where
  "example_experiment = \<lparr>exp_trackingKey = ''checkout-button'', exp_userIdType = User,
     exp_variations = [\<lparr>v_key = ''control''\<rparr>, \<lparr>v_key = ''treatment''\<rparr>],
     exp_conversionWindowDays = 3, exp_sqlOverride = None\<rparr>"

definition example_phase :: "string experimentPhase" where
  "example_phase = \<lparr>ph_dateStarted = ''2021-05-01T00:00:00.000Z'', ph_dateEnded = None\<rparr>"

section \<open>The merged result up to the order of arrival\<close>

text \<open>
  What remains of the merge state when the order of the keys of
  \<open>dimensionMap\<close>, the order of each \<open>metrics\<close> list and the order of
  the diagnostics are put aside: the set of dimension keys, for each key and
  array property the bucket with its metrics as a multiset, and the
  diagnostics as a multiset.
\<close>

type_synonym abucket = "varIndex \<times> jsnum \<times> variationMetricResult multiset"

type_synonym absState =
  "string option set \<times> (string option \<Rightarrow> pkey \<Rightarrow> abucket option) \<times> string option multiset"

definition bucketView :: "variationData \<Rightarrow> abucket" where
  "bucketView d = (vd_variation d, vd_users d, mset (vd_metrics d))"

definition stateView :: "mergeState \<Rightarrow> absState" where
  "stateView st =
     (set (ms_keys st),
      (\<lambda>k p. case ms_get st k of None \<Rightarrow> None | Some arr \<Rightarrow> map_option bucketView (arr p)),
      mset (ms_log st))"

text \<open>
  What one row does to the merge state: it writes a diagnostic, appends a
  metric summary to a bucket, or sets the user count of a bucket.
\<close>

datatype effect =
    Diagnostic "string option"
  | Append "string option" varIndex variationMetricResult
  | SetUsers "string option" varIndex jsnum

fun applyEffect :: "effect \<Rightarrow> mergeState \<Rightarrow> mergeState" where
  "applyEffect (Diagnostic t) st = st\<lparr>ms_log := ms_log st @ [t]\<rparr>"
| "applyEffect (Append k v e) st =
     getDimensionData k v (\<lambda>data. data\<lparr>vd_metrics := vd_metrics data @ [e]\<rparr>) st"
| "applyEffect (SetUsers k v n) st =
     getDimensionData k v (\<lambda>data. data\<lparr>vd_users := n\<rparr>) st"

fun viewEffect :: "effect \<Rightarrow> absState \<Rightarrow> absState" where
  "viewEffect (Diagnostic t) (K, G, L) = (K, G, add_mset t L)"
| "viewEffect (Append k v e) (K, G, L) =
     (insert k K,
      G(k := (G k)(propertyKey v \<mapsto>
          (case G k (propertyKey v) of
             None \<Rightarrow> (v, Num 0, {#e#})
           | Some (v', u, ms) \<Rightarrow> (v', u, add_mset e ms)))),
      L)"
| "viewEffect (SetUsers k v n) (K, G, L) =
     (insert k K,
      G(k := (G k)(propertyKey v \<mapsto>
          (case G k (propertyKey v) of
             None \<Rightarrow> (v, n, {#})
           | Some (v', u, ms) \<Rightarrow> (v', n, ms)))),
      L)"

fun is_users :: "effect \<Rightarrow> bool" where
  "is_users (SetUsers k v n) = True"
| "is_users _ = False"

definition metricEffect ::
  "('d, 'e) integration \<Rightarrow> experimentInterface \<Rightarrow> metric \<Rightarrow> row \<Rightarrow> effect" where
  "metricEffect env expt m r =
     (let varIndex = resolveVariation env expt (fld r ''variation'')
      in if unexpectedVariation varIndex (length (exp_variations expt))
         then Diagnostic (fld r ''variation'')
         else Append (fld r ''dimension'') varIndex
                \<lparr>vm_metric = metric_id m,
                 vm_count = or_zero (parseInt_field (fld r ''count'')),
                 vm_mean = or_zero (parseFloat_field env (fld r ''mean'')),
                 vm_stddev = or_zero (parseFloat_field env (fld r ''stddev''))\<rparr>)"

definition usersEffect ::
  "('d, 'e) integration \<Rightarrow> experimentInterface \<Rightarrow> row \<Rightarrow> effect" where
  "usersEffect env expt r =
     (let varIndex = resolveVariation env expt (fld r ''variation'')
      in if unexpectedVariation varIndex (length (exp_variations expt))
         then Diagnostic (fld r ''variation'')
         else SetUsers (fld r ''dimension'') varIndex (or_zero (parseInt_field (fld r ''users''))))"

definition mergeInvariant :: "mergeState \<Rightarrow> bool" where
  "mergeInvariant st = (dom (ms_get st) = set (ms_keys st) \<and> distinct (ms_keys st))"

definition queryEffects ::
  "('d, 'e) integration \<Rightarrow> experimentInterface \<Rightarrow> metric list \<Rightarrow> row list list \<Rightarrow> nat \<Rightarrow> effect list" where
  "queryEffects env expt metrics responses i =
     (if i < length metrics then map (metricEffect env expt (metrics ! i)) (responses ! i)
      else if i = length metrics then map (usersEffect env expt) (responses ! i)
      else [])"

definition resultsView :: "dimensionResult list \<Rightarrow> string option \<Rightarrow> pkey \<Rightarrow> abucket option" where
  "resultsView rs k p =
     (case map_of (map (\<lambda>r. (dr_dimension r, dr_variations r)) rs) k of
        None \<Rightarrow> None
      | Some arr \<Rightarrow> map_option bucketView (arr p))"

definition example_metrics :: "metric list" where
  "example_metrics = [example_metric Count User 0,
                      (example_metric Revenue User 0)\<lparr>metric_id := ''met_2''\<rparr>]"

definition example_row :: row where
  "example_row = [(''variation'', ''0''), (''dimension'', ''All''), (''count'', ''12''),
                  (''mean'', ''1''), (''stddev'', ''0''), (''users'', ''12'')]"

section \<open>Past experiment discovery\<close>

definition getPastExperimentQuery :: "('d, 'e) integration \<Rightarrow> 'd \<Rightarrow> string" where
  "getPastExperimentQuery env from =
     sqlFormat env
      (''-- Past Experiments\<newline>    WITH\<newline>      __experimentDates as (\<newline>        SELECT\<newline>          ''
       @ or_else (experimentIdColumn (s_experiments (settings env))) ''experiment_id''
       @ '' as experiment_id,\<newline>          '' @ getVariationColumn env
       @ '' as variation_id,\<newline>          '' @ dateTrunc (getTimestampColumn env None Experiments)
       @ '' as date,\<newline>          count(distinct '' @ getAnonymousIdColumn env None Experiments
       @ '') as users\<newline>        FROM\<newline>          ''
       @ getFullTableName (or_else (table (s_experiments (settings env))) ''experiment_viewed'')
       @ ''\<newline>        WHERE\<newline>          '' @ getTimestampColumn env None Experiments
       @ '' > '' @ toTimestamp env from
       @ ''\<newline>        GROUP BY\<newline>          ''
       @ or_else (experimentIdColumn (s_experiments (settings env))) ''experiment_id''
       @ '',\<newline>          '' @ getVariationColumn env
       @ '',\<newline>          '' @ dateTrunc (getTimestampColumn env None Experiments)
       @ ''\<newline>      ),\<newline>      __userThresholds as (\<newline>        SELECT\<newline>          experiment_id,\<newline>          variation_id,\<newline>          -- It's common for a small number of tracking events to continue coming in\<newline>          -- long after an experiment ends, so limit to days with enough traffic\<newline>          max(users)*0.05 as threshold\<newline>        FROM\<newline>          __experimentDates\<newline>        WHERE\<newline>          -- Skip days where a variation got 5 or fewer visitors since it's probably not real traffic\<newline>          users > 5\<newline>        GROUP BY\<newline>          experiment_id, variation_id\<newline>      ),\<newline>      __variations as (\<newline>        SELECT\<newline>          d.experiment_id,\<newline>          d.variation_id,\<newline>          MIN(d.date) as start_date,\<newline>          MAX(d.date) as end_date,\<newline>          SUM(d.users) as users\<newline>        FROM\<newline>          __experimentDates d\<newline>          JOIN __userThresholds u ON (\<newline>            d.users > u.threshold\<newline>            AND d.experiment_id = u.experiment_id\<newline>            AND d.variation_id = u.variation_id\<newline>          )\<newline>        GROUP BY\<newline>          d.experiment_id, d.variation_id\<newline>      )\<newline>    SELECT\<newline>      *\<newline>    FROM\<newline>      __variations\<newline>    WHERE\<newline>      -- Skip experiments with fewer than 200 users since they don't have enough data\<newline>      users > 200\<newline>      -- Skip experiments that are 5 days or shorter (most likely means it was stopped early)\<newline>      AND ''
       @ dateDiff ''start_date'' ''end_date''
       @ '' > 5\<newline>      -- Skip experiments that start of the very first day since we're likely missing data\<newline>      AND ''
       @ dateDiff (toTimestamp env from) ''start_date''
       @ '' > 2\<newline>    ORDER BY\<newline>      experiment_id ASC, variation_id ASC'')"

text \<open>
  What the query computes, derived table by derived table, on the rows of the
  experiment assignment table. A timestamp is a number of seconds,
  \<open>date_trunc('day', t)\<close> is the number of the day \<open>t\<close> falls on and
  \<open>datediff(day, a, b)\<close> the difference of two day numbers. No column is
  null. \<open>ORDER BY\<close> only arranges the rows of the answer, which is read here
  as a set of rows.
\<close>

record 'u event =
  ev_experiment_id :: string
  ev_variation_id :: string
  ev_timestamp :: int
  ev_anonymous_id :: 'u

record experimentDate =
  ed_experiment_id :: string
  ed_variation_id :: string
  ed_date :: int
  ed_users :: nat

record userThreshold =
  ut_experiment_id :: string
  ut_variation_id :: string
  ut_threshold :: rat

record variationRow =
  vr_experiment_id :: string
  vr_variation_id :: string
  vr_start_date :: int
  vr_end_date :: int
  vr_users :: nat

definition dayOf :: "int \<Rightarrow> int" where
  "dayOf t = t div 86400"

text \<open>\<open>GROUP BY\<close>: every key that occurs, with the rows that have it.\<close>

definition groupBy :: "('a \<Rightarrow> 'k) \<Rightarrow> 'a list \<Rightarrow> ('k \<times> 'a list) list" where
  "groupBy key rows = map (\<lambda>k. (k, filter (\<lambda>r. key r = k) rows)) (remdups (map key rows))"

text \<open>\<open>xs JOIN ys ON on\<close>.\<close>

definition joinOn :: "('a \<Rightarrow> 'b \<Rightarrow> bool) \<Rightarrow> 'a list \<Rightarrow> 'b list \<Rightarrow> ('a \<times> 'b) list" where
  "joinOn on xs ys = concat (map (\<lambda>x. map (Pair x) (filter (on x) ys)) xs)"

definition experimentDates :: "int \<Rightarrow> 'u event list \<Rightarrow> experimentDate list" where
  "experimentDates from events =
     map (\<lambda>((x, v, d), g).
            \<lparr>ed_experiment_id = x, ed_variation_id = v, ed_date = d,
             ed_users = length (remdups (map ev_anonymous_id g))\<rparr>)
         (groupBy (\<lambda>e. (ev_experiment_id e, ev_variation_id e, dayOf (ev_timestamp e)))
                  (filter (\<lambda>e. ev_timestamp e > from) events))"

text \<open>\<open>max(users)\<close> over the rows of a group.\<close>

definition maxUsers :: "experimentDate list \<Rightarrow> nat" where
  "maxUsers g = Max (set (map ed_users g))"

definition userThresholds :: "experimentDate list \<Rightarrow> userThreshold list" where
  "userThresholds dates =
     map (\<lambda>((x, v), g).
            \<lparr>ut_experiment_id = x, ut_variation_id = v,
             ut_threshold = of_nat (maxUsers g) * 0.05\<rparr>)
         (groupBy (\<lambda>d. (ed_experiment_id d, ed_variation_id d))
                  (filter (\<lambda>d. ed_users d > 5) dates))"

definition collapse :: "string \<Rightarrow> string \<Rightarrow> experimentDate list \<Rightarrow> variationRow" where
  "collapse x v g =
     \<lparr>vr_experiment_id = x, vr_variation_id = v,
      vr_start_date = Min (set (map ed_date g)), vr_end_date = Max (set (map ed_date g)),
      vr_users = sum_list (map ed_users g)\<rparr>"

definition variations :: "experimentDate list \<Rightarrow> userThreshold list \<Rightarrow> variationRow list" where
  "variations dates thresholds =
     map (\<lambda>((x, v), g). collapse x v (map fst g))
         (groupBy (\<lambda>(d, u). (ed_experiment_id d, ed_variation_id d))
            (joinOn (\<lambda>d u. of_nat (ed_users d) > ut_threshold u
                          \<and> ed_experiment_id d = ut_experiment_id u
                          \<and> ed_variation_id d = ut_variation_id u)
                    dates thresholds))"

definition selected :: "int \<Rightarrow> variationRow \<Rightarrow> bool" where
  "selected from r =
     (vr_users r > 200 \<and> vr_end_date r - vr_start_date r > 5 \<and> vr_start_date r - dayOf from > 2)"

definition pastExperiments :: "int \<Rightarrow> 'u event list \<Rightarrow> variationRow list" where
  "pastExperiments from events =
     (let dates = experimentDates from events
      in filter (selected from) (variations dates (userThresholds dates)))"

text \<open>
  The pipeline as the specification words it: the threshold of a variation
  is 5% of its peak daily count; days at or below 5 users are discarded,
  then days below the threshold; the remaining days of each variation are
  collapsed into one row; the same final filter.
\<close>

definition variationDays :: "experimentDate list \<Rightarrow> string \<Rightarrow> string \<Rightarrow> experimentDate list" where
  "variationDays dates x v = filter (\<lambda>d. ed_experiment_id d = x \<and> ed_variation_id d = v) dates"

definition spec_threshold :: "experimentDate list \<Rightarrow> string \<Rightarrow> string \<Rightarrow> rat" where
  "spec_threshold dates x v = of_nat (maxUsers (variationDays dates x v)) * 0.05"

definition spec_keptDays :: "experimentDate list \<Rightarrow> experimentDate list" where
  "spec_keptDays dates =
     filter (\<lambda>d. \<not> of_nat (ed_users d) < spec_threshold dates (ed_experiment_id d) (ed_variation_id d))
       (filter (\<lambda>d. \<not> ed_users d \<le> 5) dates)"

definition spec_pastExperiments :: "int \<Rightarrow> 'u event list \<Rightarrow> variationRow list" where
  "spec_pastExperiments from events =
     filter (selected from)
       (map (\<lambda>((x, v), g). collapse x v g)
            (groupBy (\<lambda>d. (ed_experiment_id d, ed_variation_id d))
                     (spec_keptDays (experimentDates from events))))"

text \<open>
  The days the query keeps for a variation: those above 5% of the peak among
  the days of the variation that have more than 5 users.
\<close>

definition peakUsers :: "experimentDate list \<Rightarrow> string \<Rightarrow> string \<Rightarrow> nat" where
  "peakUsers dates x v = maxUsers (filter (\<lambda>d. ed_users d > 5) (variationDays dates x v))"

definition keptDays :: "experimentDate list \<Rightarrow> string \<Rightarrow> string \<Rightarrow> experimentDate list" where
  "keptDays dates x v =
     filter (\<lambda>d. of_nat (ed_users d) > of_nat (peakUsers dates x v) * (0.05 :: rat))
            (variationDays dates x v)"

text \<open>
  An assignment table with one experiment variation: 33 users on each of the
  days 10 to 16 and 2 users on day 17.
\<close>

definition example_event :: "int \<Rightarrow> nat \<Rightarrow> nat event" where
  "example_event day user = \<lparr>ev_experiment_id = ''exp_1'', ev_variation_id = ''1'',
     ev_timestamp = day * 86400 + 3600, ev_anonymous_id = user\<rparr>"

definition example_events :: "nat event list" where
  "example_events =
     concat (map (\<lambda>day. map (example_event day) [0..<33]) [10, 11, 12, 13, 14, 15, 16])
     @ map (example_event 17) [0..<2]"

definition example_from :: int where
  "example_from = 5 * 86400 + 7200"

text \<open>A variation has a threshold when one of its days has more than 5 users.\<close>

definition hasBigDay :: "experimentDate list \<Rightarrow> string \<Rightarrow> string \<Rightarrow> bool" where
  "hasBigDay dates x v = (\<exists>d \<in> set (variationDays dates x v). 5 < ed_users d)"

definition aboveThreshold :: "experimentDate list \<Rightarrow> experimentDate \<Rightarrow> bool" where
  "aboveThreshold dates d =
     (hasBigDay dates (ed_experiment_id d) (ed_variation_id d)
      \<and> of_nat (ed_users d)
          > of_nat (peakUsers dates (ed_experiment_id d) (ed_variation_id d)) * (0.05 :: rat))"

definition example_date :: "int \<times> nat \<Rightarrow> experimentDate" where
  "example_date dn = \<lparr>ed_experiment_id = ''exp_1'', ed_variation_id = ''1'',
     ed_date = fst dn, ed_users = snd dn\<rparr>"

definition example_dates :: "experimentDate list" where
  "example_dates =
     map example_date [(10, 33), (11, 33), (12, 33), (13, 33), (14, 33), (15, 33), (16, 33), (17, 2)]"

text \<open>
  A second table: 120 users on day 10, 81 users on day 16 and 6 users on
  day 17, so that the count of day 17 equals the threshold.
\<close>

definition example_events2 :: "nat event list" where
  "example_events2 =
     map (example_event 10) [0..<120] @ map (example_event 16) [0..<81]
     @ map (example_event 17) [0..<6]"

definition example_dates2 :: "experimentDate list" where
  "example_dates2 = map example_date [(10, 120), (16, 81), (17, 6)]"

section \<open>Properties of the metric value expressions\<close>

lemma renderAgg_aggregateMetricExpr:
  "renderAgg (aggregateMetricExpr m col) = getAggregateMetricSqlValue m col"
  by (simp add: aggregateMetricExpr_def getAggregateMetricSqlValue_def capValueExpr_def capValue_def)

text \<open>
  C5. For a metric of type count, duration or revenue with cap \<open>C > 0\<close> the
  per-user aggregate expression is the aggregate of the type, \<open>COUNT(DISTINCT
  col)\<close> when a value column is configured and \<open>COUNT(*)\<close> otherwise for
  count, \<open>MAX(col)\<close> for duration and revenue, wrapped as \<open>LEAST(C, ...)\<close>, and
  its value on the rows of a user is at most \<open>C\<close>. With cap 0 the aggregate is
  not wrapped, and for a binomial metric the expression is \<open>1\<close> whatever the
  cap.
\<close>

theorem getAggregateMetricSqlValue_cap:
  "(metric_type m \<noteq> Binomial \<and> 0 < metric_cap m \<longrightarrow>
      getAggregateMetricSqlValue m col =
        ''LEAST('' @ show_int (metric_cap m) @ '', '' @
          (case metric_type m of
             Count \<Rightarrow> (if metric_column m \<noteq> [] then ''COUNT(DISTINCT '' @ col @ '')'' else ''COUNT(*)'')
           | _ \<Rightarrow> ''MAX('' @ col @ '')'') @ '')''
      \<and> renderAgg (aggregateMetricExpr m col) = getAggregateMetricSqlValue m col
      \<and> evalAgg (aggregateMetricExpr m col) vals \<le> of_int (metric_cap m))
   \<and> (metric_type m \<noteq> Binomial \<and> metric_cap m = 0 \<longrightarrow>
      getAggregateMetricSqlValue m col =
          (case metric_type m of
             Count \<Rightarrow> (if metric_column m \<noteq> [] then ''COUNT(DISTINCT '' @ col @ '')'' else ''COUNT(*)'')
           | _ \<Rightarrow> ''MAX('' @ col @ '')''))
   \<and> (metric_type m = Binomial \<longrightarrow> getAggregateMetricSqlValue m col = ''1'')"
  by (cases "metric_type m")
     (simp_all add: aggregateMetricExpr_def getAggregateMetricSqlValue_def capValueExpr_def capValue_def)

lemma show_int_numerals:
  "show_int 0 = ''0''" "show_int 3 = ''3''" "show_int 10 = ''10''" "show_int 30 = ''30''"
  by (simp_all add: show_int_def show_nat.simps digit_char_def)

theorem getAggregateMetricSqlValue_cap_witness:
  "getAggregateMetricSqlValue (example_metric Count User 10) ''m.value'' = ''LEAST(10, COUNT(DISTINCT m.value))''
   \<and> evalAgg (aggregateMetricExpr (example_metric Count User 10) ''m.value'') [1, 2, 2, 30] \<le> 10
   \<and> getAggregateMetricSqlValue (example_metric Duration User 0) ''m.value'' = ''MAX(m.value)''
   \<and> getAggregateMetricSqlValue (example_metric Binomial User 10) ''m.value'' = ''1''"
proof -
  have capped: "metric_type (example_metric Count User 10) \<noteq> Binomial
      \<and> 0 < metric_cap (example_metric Count User 10)"
    by (simp add: example_metric_def)
  have uncapped: "metric_type (example_metric Duration User 0) \<noteq> Binomial
      \<and> metric_cap (example_metric Duration User 0) = 0"
    by (simp add: example_metric_def)
  have binomial: "metric_type (example_metric Binomial User 10) = Binomial"
    by (simp add: example_metric_def)
  have c1: "getAggregateMetricSqlValue (example_metric Count User 10) ''m.value''
        = ''LEAST(10, COUNT(DISTINCT m.value))''
      \<and> evalAgg (aggregateMetricExpr (example_metric Count User 10) ''m.value'') [1, 2, 2, 30] \<le> 10"
    using getAggregateMetricSqlValue_cap
            [of "example_metric Count User 10" "''m.value''" "[1, 2, 2, 30]",
             THEN conjunct1, THEN mp, OF capped]
    by (simp add: example_metric_def show_int_numerals)
  have c2: "getAggregateMetricSqlValue (example_metric Duration User 0) ''m.value'' = ''MAX(m.value)''"
    using getAggregateMetricSqlValue_cap
            [of "example_metric Duration User 0" "''m.value''" "[]",
             THEN conjunct2, THEN conjunct1, THEN mp, OF uncapped]
    by (simp add: example_metric_def)
  have c3: "getAggregateMetricSqlValue (example_metric Binomial User 10) ''m.value'' = ''1''"
    using getAggregateMetricSqlValue_cap
            [of "example_metric Binomial User 10" "''m.value''" "[]",
             THEN conjunct2, THEN conjunct2, THEN mp, OF binomial]
    by simp
  from c1 c2 c3 show ?thesis by blast
qed

section \<open>Properties of the metric CTE\<close>

lemma column_expr_metricCTE:
  "column_expr (metricCTE_columns env m w userId) ''user_id'' = Some (metricCTE_userIdCol env m userId)"
  "column_expr (metricCTE_columns env m w userId) ''conversion_end''
     = Some (addDateInterval (metricCTE_timestampCol env m) w)"
  "column_expr (metricCTE_columns env m w userId) ''session_start''
     = Some (subtractHalfHour (metricCTE_timestampCol env m))"
  by (simp_all add: column_expr_def metricCTE_columns_def)

text \<open>
  C2 as stated fails: with a conversion window of 3 the \<open>conversion_end\<close>
  column adds an interval of 3 days, not of 3 hours.
\<close>

theorem getMetricCTE_conversion_end_not_hours:
  "column_expr (metricCTE_columns (example_env (\<lambda>sql. [])) (example_metric Count User 0) 3 True)
       ''conversion_end''
     = Some (''m.received_at + INTERVAL '3 days'' @ sq)
   \<and> column_expr (metricCTE_columns (example_env (\<lambda>sql. [])) (example_metric Count User 0) 3 True)
       ''conversion_end''
     \<noteq> Some (spec_conversion_end_hours ''m.received_at'' 3)"
  by (simp add: column_expr_def metricCTE_columns_def addDateInterval_def metricCTE_timestampCol_def
        getTimestampColumn_def example_env_def example_settings_def no_settings_def
        example_metric_def spec_conversion_end_hours_def show_int_numerals sq_def)

text \<open>
  C2, amended. In every metric CTE the \<open>conversion_end\<close> column is the
  event timestamp column plus an interval of \<open>conversionWindowDays\<close> days
  (the window the caller passes, in days), and the \<open>session_start\<close> column
  is the event timestamp column minus 30 minutes; both stand in the select
  list of the composed text.
\<close>

theorem getMetricCTE_conversion_end_days:
  "column_expr (metricCTE_columns env m conversionWindowDays userId) ''conversion_end''
     = Some (''m.'' @ getTimestampColumn env (Some m) Default
             @ '' + INTERVAL '' @ sq @ show_int conversionWindowDays @ '' days'' @ sq)
   \<and> column_expr (metricCTE_columns env m conversionWindowDays userId) ''session_start''
     = Some (''m.'' @ getTimestampColumn env (Some m) Default @ '' - INTERVAL '30 minutes'' @ sq)
   \<and> getMetricCTE env m conversionWindowDays userId
     = ''-- Metric ('' @ metric_name m @ '')\<newline>      SELECT\<newline>        ''
       @ metricCTE_userIdCol env m userId @ '' as user_id,\<newline>        ''
       @ getRawMetricSqlValue m ''m'' @ '' as value,\<newline>        ''
       @ ''m.'' @ getTimestampColumn env (Some m) Default @ '' as actual_start,\<newline>        ''
       @ ''m.'' @ getTimestampColumn env (Some m) Default
       @ '' + INTERVAL '' @ sq @ show_int conversionWindowDays @ '' days'' @ sq
       @ '' as conversion_end,\<newline>        ''
       @ ''m.'' @ getTimestampColumn env (Some m) Default @ '' - INTERVAL '30 minutes'' @ sq
       @ '' as session_start\<newline>      FROM\<newline>        '' @ metric_table m @ '' m\<newline>        ''
       @ metricCTE_join env m userId
       @ ''\<newline>      '' @ metricCTE_where m @ ''\<newline>    ''"
  by (simp add: column_expr_def metricCTE_columns_def getMetricCTE_def addDateInterval_def
        subtractHalfHour_def metricCTE_timestampCol_def getFullTableName_def)

text \<open>
  C6. When the requested identifier space differs from the metric's own
  (user requested and the metric anonymous, or anonymous requested and the
  metric user), the join slot of the metric CTE holds the one join that
  \<open>getIdentifiesJoinSql\<close> builds, on the identifies table under the
  alias \<open>i\<close>, and the column selected as \<open>user_id\<close> is \<open>i.user_id\<close>. In
  every other case the join slot is empty and the column is read from the
  primary alias \<open>m\<close>.
\<close>

theorem getMetricCTE_identity_bridge:
  "(userId \<and> metric_userIdType m = Anonymous \<or> \<not> userId \<and> metric_userIdType m = User \<longrightarrow>
      column_expr (metricCTE_columns env m w userId) ''user_id'' = Some ''i.user_id''
    \<and> metricCTE_join env m userId
        = ''JOIN '' @ or_else (table (s_identifies (settings env))) ''identifies''
          @ '' i ON (\<newline>      i.''
          @ (if userId then getAnonymousIdColumn env None Identifies
             else getUserIdColumn env None Identifies)
          @ '' = m.''
          @ (if userId then getAnonymousIdColumn env (Some m) Default
             else getUserIdColumn env (Some m) Default)
          @ ''\<newline>    )'')
   \<and> (\<not> (userId \<and> metric_userIdType m = Anonymous \<or> \<not> userId \<and> metric_userIdType m = User) \<longrightarrow>
      column_expr (metricCTE_columns env m w userId) ''user_id''
        = Some (''m.'' @ (if userId then getUserIdColumn env (Some m) Default
                          else getAnonymousIdColumn env (Some m) Default))
    \<and> metricCTE_join env m userId = [])
   \<and> getMetricCTE env m w userId
     = ''-- Metric ('' @ metric_name m @ '')\<newline>      SELECT\<newline>        ''
       @ the (column_expr (metricCTE_columns env m w userId) ''user_id'') @ '' as user_id,\<newline>        ''
       @ getRawMetricSqlValue m ''m'' @ '' as value,\<newline>        ''
       @ metricCTE_timestampCol env m @ '' as actual_start,\<newline>        ''
       @ addDateInterval (metricCTE_timestampCol env m) w @ '' as conversion_end,\<newline>        ''
       @ subtractHalfHour (metricCTE_timestampCol env m)
       @ '' as session_start\<newline>      FROM\<newline>        '' @ metric_table m @ '' m\<newline>        ''
       @ metricCTE_join env m userId
       @ ''\<newline>      '' @ metricCTE_where m @ ''\<newline>    ''"
  by (auto simp add: column_expr_def metricCTE_columns_def getMetricCTE_def metricCTE_userIdCol_def
        metricCTE_join_def getIdentifiesJoinSql_def getFullTableName_def)

theorem getMetricCTE_identity_bridge_witness:
  "column_expr (metricCTE_columns (example_env (\<lambda>sql. [])) (example_metric Count Anonymous 0) 3 True) ''user_id''
     = Some ''i.user_id''
   \<and> metricCTE_join (example_env (\<lambda>sql. [])) (example_metric Count Anonymous 0) True
     = ''JOIN identifies i ON (\<newline>      i.anonymous_id = m.anonymous_id\<newline>    )''
   \<and> metricCTE_join (example_env (\<lambda>sql. [])) (example_metric Count User 0) False
     = ''JOIN identifies i ON (\<newline>      i.user_id = m.user_id\<newline>    )''
   \<and> column_expr (metricCTE_columns (example_env (\<lambda>sql. [])) (example_metric Count User 0) 3 True) ''user_id''
     = Some ''m.user_id''
   \<and> metricCTE_join (example_env (\<lambda>sql. [])) (example_metric Count User 0) True = []"
  using getMetricCTE_identity_bridge [of True "example_metric Count Anonymous 0" "example_env (\<lambda>sql. [])" 3]
        getMetricCTE_identity_bridge [of False "example_metric Count User 0" "example_env (\<lambda>sql. [])" 3]
        getMetricCTE_identity_bridge [of True "example_metric Count User 0" "example_env (\<lambda>sql. [])" 3]
  by (simp add: example_metric_def example_env_def example_settings_def no_settings_def
        getAnonymousIdColumn_def getUserIdColumn_def)

section \<open>Properties of the metric value query\<close>

lemma show_int_percents:
  "show_int 1 = ''1''" "show_int 5 = ''5''" "show_int 10 = ''10''" "show_int 20 = ''20''"
  "show_int 30 = ''30''" "show_int 40 = ''40''" "show_int 50 = ''50''" "show_int 60 = ''60''"
  "show_int 70 = ''70''" "show_int 80 = ''80''" "show_int 90 = ''90''" "show_int 95 = ''95''"
  "show_int 99 = ''99''"
  by (simp_all add: show_int_def show_nat.simps digit_char_def)

lemma percentileName_values:
  "map percentileName percentileNumbers
     = [''p1'', ''p5'', ''p10'', ''p20'', ''p30'', ''p40'', ''p50'', ''p60'', ''p70'', ''p80'',
        ''p90'', ''p95'', ''p99'']"
  by (simp add: percentileName_def percentileNumbers_def show_int_percents)

lemma percentileColumnsSql_text:
  "percentileColumnsSql env params =
     (if p_includePercentiles params \<and> metric_type (p_metric params) \<noteq> Binomial
      then '','' @ percentile env ''value'' 0.01 @ '' as p1''
        @ ''\<newline>      ,'' @ percentile env ''value'' 0.05 @ '' as p5''
        @ ''\<newline>      ,'' @ percentile env ''value'' 0.1 @ '' as p10''
        @ ''\<newline>      ,'' @ percentile env ''value'' 0.2 @ '' as p20''
        @ ''\<newline>      ,'' @ percentile env ''value'' 0.3 @ '' as p30''
        @ ''\<newline>      ,'' @ percentile env ''value'' 0.4 @ '' as p40''
        @ ''\<newline>      ,'' @ percentile env ''value'' 0.5 @ '' as p50''
        @ ''\<newline>      ,'' @ percentile env ''value'' 0.6 @ '' as p60''
        @ ''\<newline>      ,'' @ percentile env ''value'' 0.7 @ '' as p70''
        @ ''\<newline>      ,'' @ percentile env ''value'' 0.8 @ '' as p80''
        @ ''\<newline>      ,'' @ percentile env ''value'' 0.9 @ '' as p90''
        @ ''\<newline>      ,'' @ percentile env ''value'' 0.95 @ '' as p95''
        @ ''\<newline>      ,'' @ percentile env ''value'' 0.99 @ '' as p99''
      else [])"
  by (simp add: percentileColumnsSql_def percentileName_def percentileNumbers_def show_int_percents)

lemma datePercentileColumnsSql_text:
  "datePercentileColumnsSql params =
     (if p_includePercentiles params \<and> metric_type (p_metric params) \<noteq> Binomial
      then '',0 as p1\<newline>      ,0 as p5\<newline>      ,0 as p10\<newline>      ,0 as p20\<newline>      ,0 as p30\<newline>      ,0 as p40\<newline>      ,0 as p50\<newline>      ,0 as p60\<newline>      ,0 as p70\<newline>      ,0 as p80\<newline>      ,0 as p90\<newline>      ,0 as p95\<newline>      ,0 as p99''
      else [])"
  by (simp add: datePercentileColumnsSql_def percentileName_def percentileNumbers_def show_int_percents)

text \<open>
  C7. With percentiles requested, the terminal select of the metric value
  query lists, after \<open>count\<close>, \<open>mean\<close> and \<open>stddev\<close>, the thirteen columns
  \<open>p1, p5, p10, p20, ..., p90, p95, p99\<close>, each the dialect's percentile
  expression over \<open>value\<close>, when the metric is not binomial. For a binomial
  metric the terminal select has no percentile column, and neither has the
  by-date branch.
\<close>

theorem getMetricValueQuery_percentile_ladder:
  assumes "p_includePercentiles params"
  shows "getMetricValueQuery env params
           = sqlFormat env (metricValueQuery_with env params @ metricValueQuery_select env params
                            @ metricValueQuery_union params @ ''\<newline>      '')
     \<and> metricValueQuery_select env params
         = ''\<newline>      SELECT\<newline>        ''
           @ (if p_includeByDate params then ''null as date,'' else [])
           @ ''\<newline>        COUNT(*) as count,\<newline>        AVG(value) as mean,\<newline>        STDDEV(value) as stddev\<newline>        ''
           @ (if metric_type (p_metric params) = Binomial then []
              else '','' @ percentile env ''value'' 0.01 @ '' as p1''
                @ ''\<newline>      ,'' @ percentile env ''value'' 0.05 @ '' as p5''
                @ ''\<newline>      ,'' @ percentile env ''value'' 0.1 @ '' as p10''
                @ ''\<newline>      ,'' @ percentile env ''value'' 0.2 @ '' as p20''
                @ ''\<newline>      ,'' @ percentile env ''value'' 0.3 @ '' as p30''
                @ ''\<newline>      ,'' @ percentile env ''value'' 0.4 @ '' as p40''
                @ ''\<newline>      ,'' @ percentile env ''value'' 0.5 @ '' as p50''
                @ ''\<newline>      ,'' @ percentile env ''value'' 0.6 @ '' as p60''
                @ ''\<newline>      ,'' @ percentile env ''value'' 0.7 @ '' as p70''
                @ ''\<newline>      ,'' @ percentile env ''value'' 0.8 @ '' as p80''
                @ ''\<newline>      ,'' @ percentile env ''value'' 0.9 @ '' as p90''
                @ ''\<newline>      ,'' @ percentile env ''value'' 0.95 @ '' as p95''
                @ ''\<newline>      ,'' @ percentile env ''value'' 0.99 @ '' as p99'')
           @ ''\<newline>      from\<newline>        __userMetric\<newline>      ''
     \<and> (metric_type (p_metric params) = Binomial \<longrightarrow>
          metricValueQuery_union params
            = (if p_includeByDate params
               then ''\<newline>        UNION SELECT\<newline>          date,\<newline>          COUNT(*) as count,\<newline>          AVG(value) as mean,\<newline>          STDDEV(value) as stddev\<newline>          ''
                    @ ''\<newline>        FROM\<newline>          __userMetricDates d\<newline>        GROUP BY\<newline>          date\<newline>        ORDER BY\<newline>          date ASC\<newline>      ''
               else []))"
  using assms
  by (simp add: getMetricValueQuery_def metricValueQuery_select_def metricValueQuery_union_def
        percentileColumnsSql_text datePercentileColumnsSql_text)

theorem getMetricValueQuery_percentile_ladder_witness:
  "metricValueQuery_select (example_env (\<lambda>sql. [])) (example_params Duration False True)
     = ''\<newline>      SELECT\<newline>        \<newline>        COUNT(*) as count,\<newline>        AVG(value) as mean,\<newline>        STDDEV(value) as stddev\<newline>        ,PERCENTILE(value, 1) as p1\<newline>      ,PERCENTILE(value, 5) as p5\<newline>      ,PERCENTILE(value, 10) as p10\<newline>      ,PERCENTILE(value, 20) as p20\<newline>      ,PERCENTILE(value, 30) as p30\<newline>      ,PERCENTILE(value, 40) as p40\<newline>      ,PERCENTILE(value, 50) as p50\<newline>      ,PERCENTILE(value, 60) as p60\<newline>      ,PERCENTILE(value, 70) as p70\<newline>      ,PERCENTILE(value, 80) as p80\<newline>      ,PERCENTILE(value, 90) as p90\<newline>      ,PERCENTILE(value, 95) as p95\<newline>      ,PERCENTILE(value, 99) as p99\<newline>      from\<newline>        __userMetric\<newline>      ''
   \<and> metricValueQuery_select (example_env (\<lambda>sql. [])) (example_params Binomial False True)
     = ''\<newline>      SELECT\<newline>        \<newline>        COUNT(*) as count,\<newline>        AVG(value) as mean,\<newline>        STDDEV(value) as stddev\<newline>        \<newline>      from\<newline>        __userMetric\<newline>      ''
   \<and> metricValueQuery_union (example_params Binomial False True) = []"
proof -
  have pct: "p_includePercentiles (example_params Duration False True)"
            "p_includePercentiles (example_params Binomial False True)"
    by (simp_all add: example_params_def)
  have bin: "metric_type (p_metric (example_params Binomial False True)) = Binomial"
    by (simp add: example_params_def example_metric_def)
  have c1: "metricValueQuery_select (example_env (\<lambda>sql. [])) (example_params Duration False True)
     = ''\<newline>      SELECT\<newline>        \<newline>        COUNT(*) as count,\<newline>        AVG(value) as mean,\<newline>        STDDEV(value) as stddev\<newline>        ,PERCENTILE(value, 1) as p1\<newline>      ,PERCENTILE(value, 5) as p5\<newline>      ,PERCENTILE(value, 10) as p10\<newline>      ,PERCENTILE(value, 20) as p20\<newline>      ,PERCENTILE(value, 30) as p30\<newline>      ,PERCENTILE(value, 40) as p40\<newline>      ,PERCENTILE(value, 50) as p50\<newline>      ,PERCENTILE(value, 60) as p60\<newline>      ,PERCENTILE(value, 70) as p70\<newline>      ,PERCENTILE(value, 80) as p80\<newline>      ,PERCENTILE(value, 90) as p90\<newline>      ,PERCENTILE(value, 95) as p95\<newline>      ,PERCENTILE(value, 99) as p99\<newline>      from\<newline>        __userMetric\<newline>      ''"
    using getMetricValueQuery_percentile_ladder
            [OF pct(1), of "example_env (\<lambda>sql. [])", THEN conjunct2, THEN conjunct1]
    by (simp add: example_params_def example_metric_def example_env_def show_int_percents)
  have c2: "metricValueQuery_select (example_env (\<lambda>sql. [])) (example_params Binomial False True)
     = ''\<newline>      SELECT\<newline>        \<newline>        COUNT(*) as count,\<newline>        AVG(value) as mean,\<newline>        STDDEV(value) as stddev\<newline>        \<newline>      from\<newline>        __userMetric\<newline>      ''"
    using getMetricValueQuery_percentile_ladder
            [OF pct(2), of "example_env (\<lambda>sql. [])", THEN conjunct2, THEN conjunct1]
    by (simp add: example_params_def example_metric_def)
  have c3: "metricValueQuery_union (example_params Binomial False True) = []"
    using getMetricValueQuery_percentile_ladder
            [OF pct(2), of "example_env (\<lambda>sql. [])", THEN conjunct2, THEN conjunct2, THEN mp, OF bin]
    by (simp add: example_params_def)
  from c1 c2 c3 show ?thesis by blast
qed

text \<open>
  C10. With the by-date breakdown and percentiles both requested for a
  metric that is not binomial, the by-date branch of the union selects every
  percentile column as the constant \<open>0\<close>, while the terminal select, the
  overall row with \<open>null as date\<close>, holds the dialect's percentile
  expressions.
\<close>

theorem getMetricValueQuery_by_date_percentiles_zero:
  assumes "p_includeByDate params" and "p_includePercentiles params"
    and "metric_type (p_metric params) \<noteq> Binomial"
  shows "getMetricValueQuery env params
           = sqlFormat env (metricValueQuery_with env params @ metricValueQuery_select env params
                            @ metricValueQuery_union params @ ''\<newline>      '')
     \<and> metricValueQuery_union params
         = ''\<newline>        UNION SELECT\<newline>          date,\<newline>          COUNT(*) as count,\<newline>          AVG(value) as mean,\<newline>          STDDEV(value) as stddev\<newline>          ''
           @ '',0 as p1\<newline>      ,0 as p5\<newline>      ,0 as p10\<newline>      ,0 as p20\<newline>      ,0 as p30\<newline>      ,0 as p40\<newline>      ,0 as p50\<newline>      ,0 as p60\<newline>      ,0 as p70\<newline>      ,0 as p80\<newline>      ,0 as p90\<newline>      ,0 as p95\<newline>      ,0 as p99''
           @ ''\<newline>        FROM\<newline>          __userMetricDates d\<newline>        GROUP BY\<newline>          date\<newline>        ORDER BY\<newline>          date ASC\<newline>      ''
     \<and> metricValueQuery_select env params
         = ''\<newline>      SELECT\<newline>        null as date,''
           @ ''\<newline>        COUNT(*) as count,\<newline>        AVG(value) as mean,\<newline>        STDDEV(value) as stddev\<newline>        ''
           @ '','' @ percentile env ''value'' 0.01 @ '' as p1''
           @ ''\<newline>      ,'' @ percentile env ''value'' 0.05 @ '' as p5''
           @ ''\<newline>      ,'' @ percentile env ''value'' 0.1 @ '' as p10''
           @ ''\<newline>      ,'' @ percentile env ''value'' 0.2 @ '' as p20''
           @ ''\<newline>      ,'' @ percentile env ''value'' 0.3 @ '' as p30''
           @ ''\<newline>      ,'' @ percentile env ''value'' 0.4 @ '' as p40''
           @ ''\<newline>      ,'' @ percentile env ''value'' 0.5 @ '' as p50''
           @ ''\<newline>      ,'' @ percentile env ''value'' 0.6 @ '' as p60''
           @ ''\<newline>      ,'' @ percentile env ''value'' 0.7 @ '' as p70''
           @ ''\<newline>      ,'' @ percentile env ''value'' 0.8 @ '' as p80''
           @ ''\<newline>      ,'' @ percentile env ''value'' 0.9 @ '' as p90''
           @ ''\<newline>      ,'' @ percentile env ''value'' 0.95 @ '' as p95''
           @ ''\<newline>      ,'' @ percentile env ''value'' 0.99 @ '' as p99''
           @ ''\<newline>      from\<newline>        __userMetric\<newline>      ''"
  using assms
  by (simp add: getMetricValueQuery_def metricValueQuery_select_def metricValueQuery_union_def
        percentileColumnsSql_text datePercentileColumnsSql_text)

theorem getMetricValueQuery_by_date_percentiles_zero_witness:
  "metricValueQuery_union (example_params Revenue True True)
     = ''\<newline>        UNION SELECT\<newline>          date,\<newline>          COUNT(*) as count,\<newline>          AVG(value) as mean,\<newline>          STDDEV(value) as stddev\<newline>          ,0 as p1\<newline>      ,0 as p5\<newline>      ,0 as p10\<newline>      ,0 as p20\<newline>      ,0 as p30\<newline>      ,0 as p40\<newline>      ,0 as p50\<newline>      ,0 as p60\<newline>      ,0 as p70\<newline>      ,0 as p80\<newline>      ,0 as p90\<newline>      ,0 as p95\<newline>      ,0 as p99\<newline>        FROM\<newline>          __userMetricDates d\<newline>        GROUP BY\<newline>          date\<newline>        ORDER BY\<newline>          date ASC\<newline>      ''"
proof -
  have h: "p_includeByDate (example_params Revenue True True)"
          "p_includePercentiles (example_params Revenue True True)"
          "metric_type (p_metric (example_params Revenue True True)) \<noteq> Binomial"
    by (simp_all add: example_params_def example_metric_def)
  show ?thesis
    using getMetricValueQuery_by_date_percentiles_zero
            [OF h, of "example_env (\<lambda>sql. [])", THEN conjunct2, THEN conjunct1]
    by simp
qed

section \<open>Properties of the result parser and of impact estimation\<close>

lemma parseInt_examples:
  "parseInt_value ''7'' = Some 7" "parseInt_value ''0'' = Some 0" "parseInt_value ''1'' = Some 1"
  "parseInt_value ''12'' = Some 12" "parseInt_value ''n/a'' = None"
  "parseInt_value ''blue'' = None"
  by (simp_all add: parseInt_value_def is_space_def is_digit_def digit_of_def digits_value_def)

lemma runUsersQuery_row_default:
  "parseInt_field (fld r ''users'') = NaN \<Longrightarrow>
     (if truthy (fld r ''date'')
      then ur_dates (runUsersQuery_row r ret)
             = Some ((case ur_dates ret of None \<Rightarrow> [] | Some ds \<Rightarrow> ds)
                     @ [\<lparr>ud_date = the (fld r ''date''), ud_users = Num 0\<rparr>])
      else ur_users (runUsersQuery_row r ret) = Num 0)"
  by (simp add: runUsersQuery_row_def)

lemma runMetricValueQuery_row_default:
  "parseInt_field (fld r ''count'') = NaN \<Longrightarrow> parseFloat_field env (fld r ''mean'') = NaN \<Longrightarrow>
   parseFloat_field env (fld r ''stddev'') = NaN \<Longrightarrow> truthy (fld r ''date'') \<Longrightarrow>
     mv_dates (runMetricValueQuery_row env r ret)
       = Some ((case mv_dates ret of None \<Rightarrow> [] | Some ds \<Rightarrow> ds)
               @ [\<lparr>md_date = the (fld r ''date''), md_count = Num 0, md_mean = Num 0,
                   md_stddev = Num 0\<rparr>])"
  by (simp add: runMetricValueQuery_row_def)

text \<open>
  C4 fails in \<open>runPastExperimentQuery\<close>: a \<open>users\<close> column that does not
  parse is stored as \<open>NaN\<close>, not as 0 (the row is kept and nothing is
  raised). \<open>runUsersQuery\<close> and \<open>runMetricValueQuery\<close> apply \<open>|| 0\<close> to
  every number they parse; \<open>runPastExperimentQuery\<close> does not.
\<close>

theorem runPastExperimentQuery_unparsable_users:
  "runPastExperimentQuery
     (example_env (\<lambda>sql. [[(''experiment_id'', ''exp_1''), (''variation_id'', ''0''),
                             (''start_date'', ''2021-05-01''), (''end_date'', ''2021-05-20''),
                             (''users'', ''n/a'')]]))
     ''SELECT * FROM __variations''
   = Inr [\<lparr>pe_users = NaN, pe_end_date = ''2021-05-20'', pe_start_date = ''2021-05-01'',
            pe_experiment_id = Some ''exp_1'', pe_variation_id = Some ''0''\<rparr>]"
  by (simp add: runPastExperimentQuery_def runPastExperimentQuery_row_def example_env_def
        parseInt_field_def parseInt_def parseInt_examples fld_def)

text \<open>
  C9. If the three queries of \<open>getImpactEstimation\<close> all return no rows, the
  call returns (it does not reject) a result with \<open>users\<close>, \<open>value\<close> and
  \<open>metricTotal\<close> all 0, whose \<open>query\<close> is the three formatted query texts,
  each followed by a semicolon and separated by blank lines, and so is not
  empty.
\<close>

theorem getImpactEstimation_all_empty:
  assumes "runQuery env (impactEstimation_usersSql env urlRegex m seg) = Inr []"
    and "runQuery env (impactEstimation_metricSql env urlRegex m seg) = Inr []"
    and "runQuery env (impactEstimation_valueSql env urlRegex m seg) = Inr []"
  shows "getImpactEstimation env urlRegex m seg
           = Inr \<lparr>ie_query = sqlFormat env (impactEstimation_usersSql env urlRegex m seg)
                              @ '';\<newline>\<newline>''
                              @ sqlFormat env (impactEstimation_metricSql env urlRegex m seg)
                              @ '';\<newline>\<newline>''
                              @ sqlFormat env (impactEstimation_valueSql env urlRegex m seg)
                              @ '';'',
                   ie_users = Num 0, ie_value = Num 0, ie_metricTotal = Num 0\<rparr>
     \<and> (\<exists>r. getImpactEstimation env urlRegex m seg = Inr r \<and> ie_query r \<noteq> [])"
  using assms by (simp add: getImpactEstimation_def)

theorem getImpactEstimation_all_empty_witness:
  "(case getImpactEstimation (example_env (\<lambda>sql. [])) ''^/pricing'' (example_metric Revenue User 0) None of
      Inl e \<Rightarrow> False
    | Inr r \<Rightarrow> ie_users r = Num 0 \<and> ie_value r = Num 0 \<and> ie_metricTotal r = Num 0
               \<and> ie_query r \<noteq> [])"
proof -
  have empty: "\<And>sql. runQuery (example_env (\<lambda>sql. [])) sql = Inr []"
    by (simp add: example_env_def)
  show ?thesis
    using getImpactEstimation_all_empty
            [OF empty empty empty, of "''^/pricing''" "example_metric Revenue User 0" None]
    by simp
qed

section \<open>Properties of the experiment analysis orchestrator\<close>

lemma variationKeyMap_example:
  "variationKeyMap example_experiment = [''control'' \<mapsto> 0, ''treatment'' \<mapsto> 1]"
  "length (exp_variations example_experiment) = 2"
  by (simp_all add: variationKeyMap_def example_experiment_def upt_rec)

text \<open>
  C1 fails when the variation does not resolve to a number at all. With the
  variation format \<open>key\<close> and a key that the experiment does not declare,
  a row of the users query creates the bucket of its dimension and is stored
  there under the property \<open>undefined\<close>; with the format \<open>index\<close> and text
  that is not an integer it is stored under \<open>NaN\<close>. No diagnostic is
  written in either case. (An integer outside the declared range is dropped
  with a diagnostic, as the third run shows.)
\<close>

theorem getExperimentResults_unresolved_variation_kept:
  "map_sum id (\<lambda>(res, log). (er_results res, log))
     (getExperimentResults
        (example_env_format ''key'' (\<lambda>sql. [[(''variation'', ''blue''), (''dimension'', ''mobile''),
                                               (''users'', ''7'')]]))
        example_experiment example_phase [] None None [0])
   = Inr ([\<lparr>dr_dimension = Some ''mobile'',
             dr_variations = [Named Undefined \<mapsto>
                \<lparr>vd_variation = Undefined, vd_users = Num 7, vd_metrics = []\<rparr>]\<rparr>], [])
   \<and> map_sum id (\<lambda>(res, log). (er_results res, log))
     (getExperimentResults
        (example_env_format ''index'' (\<lambda>sql. [[(''variation'', ''n/a''), (''dimension'', ''mobile''),
                                                 (''users'', ''7'')]]))
        example_experiment example_phase [] None None [0])
   = Inr ([\<lparr>dr_dimension = Some ''mobile'',
             dr_variations = [Named NotANumber \<mapsto>
                \<lparr>vd_variation = NotANumber, vd_users = Num 7, vd_metrics = []\<rparr>]\<rparr>], [])
   \<and> map_sum id (\<lambda>(res, log). (er_results res, log))
     (getExperimentResults
        (example_env_format ''index'' (\<lambda>sql. [[(''variation'', ''7''), (''dimension'', ''mobile''),
                                                 (''users'', ''7'')]]))
        example_experiment example_phase [] None None [0])
   = Inr ([], [Some ''7''])"
  by (simp add: getExperimentResults_def experimentQueries_def example_env_format_def
        example_env_def completeQuery_def usersRow_def resolveVariation_def
        variationKeyMap_example unexpectedVariation_def getDimensionData_def propertyKey_def
        initialState_def resultsOf_def fld_def parseInt_field_def parseInt_def
        parseInt_examples example_settings_def no_settings_def Let_def)

lemma metricRow_effect:
  "metricRow env expt m = (\<lambda>r. applyEffect (metricEffect env expt m r))"
  by (rule ext, rule ext) (simp add: metricRow_def metricEffect_def Let_def)

lemma usersRow_effect:
  "usersRow env expt = (\<lambda>r. applyEffect (usersEffect env expt r))"
  by (rule ext, rule ext) (simp add: usersRow_def usersEffect_def Let_def)

lemma fold_concat_map: "fold f (concat (map g xs)) = fold (\<lambda>x. fold f (g x)) xs"
  by (induction xs) simp_all

lemma propertyKey_inject: "propertyKey v = propertyKey w \<Longrightarrow> v = w"
  by (auto simp add: propertyKey_def split: varIndex.splits if_splits)

lemma mergeInvariant_initial: "mergeInvariant initialState"
  by (simp add: mergeInvariant_def initialState_def)

lemma mergeInvariant_getDimensionData:
  "mergeInvariant st \<Longrightarrow> mergeInvariant (getDimensionData k v f st)"
  by (auto simp add: mergeInvariant_def getDimensionData_def Let_def)

lemma mergeInvariant_applyEffect: "mergeInvariant st \<Longrightarrow> mergeInvariant (applyEffect e st)"
  by (cases e) (simp_all add: mergeInvariant_getDimensionData, simp add: mergeInvariant_def)

lemma mergeInvariant_fold:
  "mergeInvariant st \<Longrightarrow> mergeInvariant (fold applyEffect es st)"
  by (induction es arbitrary: st) (simp_all add: mergeInvariant_applyEffect)

lemma stateView_getDimensionData:
  assumes "mergeInvariant st"
    and "\<And>d. bucketView (f d) = g (bucketView d)"
  shows "stateView (getDimensionData k v f st)
     = (insert k (set (ms_keys st)),
        (fst (snd (stateView st)))(k := (fst (snd (stateView st)) k)(propertyKey v \<mapsto>
            g (case fst (snd (stateView st)) k (propertyKey v) of
                 None \<Rightarrow> (v, Num 0, {#})
               | Some b \<Rightarrow> b))),
        mset (ms_log st))"
  using assms
  by (auto simp add: stateView_def getDimensionData_def Let_def mergeInvariant_def bucketView_def
        fun_eq_iff domIff split: option.splits)

lemma stateView_applyEffect:
  "mergeInvariant st \<Longrightarrow> stateView (applyEffect e st) = viewEffect e (stateView st)"
proof (cases e)
  case (Diagnostic t)
  then show ?thesis by (simp add: stateView_def)
next
  case (Append k v x)
  assume inv: "mergeInvariant st"
  have "stateView (applyEffect e st)
      = (insert k (set (ms_keys st)),
        (fst (snd (stateView st)))(k := (fst (snd (stateView st)) k)(propertyKey v \<mapsto>
            (\<lambda>(v', u, ms). (v', u, add_mset x ms))
              (case fst (snd (stateView st)) k (propertyKey v) of
                 None \<Rightarrow> (v, Num 0, {#})
               | Some b \<Rightarrow> b))),
        mset (ms_log st))"
    unfolding Append applyEffect.simps
    by (rule stateView_getDimensionData [OF inv]) (simp add: bucketView_def)
  then show ?thesis
    by (auto simp add: Append stateView_def fun_eq_iff split: option.splits)
next
  case (SetUsers k v n)
  assume inv: "mergeInvariant st"
  have "stateView (applyEffect e st)
      = (insert k (set (ms_keys st)),
        (fst (snd (stateView st)))(k := (fst (snd (stateView st)) k)(propertyKey v \<mapsto>
            (\<lambda>(v', u, ms). (v', n, ms))
              (case fst (snd (stateView st)) k (propertyKey v) of
                 None \<Rightarrow> (v, Num 0, {#})
               | Some b \<Rightarrow> b))),
        mset (ms_log st))"
    unfolding SetUsers applyEffect.simps
    by (rule stateView_getDimensionData [OF inv]) (simp add: bucketView_def)
  then show ?thesis
    by (auto simp add: SetUsers stateView_def fun_eq_iff split: option.splits)
qed

lemma stateView_fold:
  "mergeInvariant st \<Longrightarrow> stateView (fold applyEffect es st) = fold viewEffect es (stateView st)"
  by (induction es arbitrary: st) (simp_all add: stateView_applyEffect mergeInvariant_applyEffect)

lemma viewEffect_commute:
  "\<not> (is_users a \<and> is_users b) \<Longrightarrow> viewEffect a (viewEffect b s) = viewEffect b (viewEffect a s)"
  by (cases a; cases b; cases s)
     (auto simp add: fun_eq_iff insert_commute dest: propertyKey_inject split: option.splits)

lemma completeQuery_effects:
  "completeQuery env expt metrics responses
     = (\<lambda>i. fold applyEffect (queryEffects env expt metrics responses i))"
  by (rule ext, rule ext)
     (simp add: completeQuery_def queryEffects_def fold_map metricRow_effect usersRow_effect comp_def)

lemma queryEffects_users:
  "e \<in> set (queryEffects env expt metrics responses i) \<Longrightarrow> is_users e \<Longrightarrow> i = length metrics"
  by (auto simp add: queryEffects_def metricEffect_def Let_def split: if_splits)

lemma viewEffect_fold_commute:
  "\<forall>b \<in> set bs. \<not> (is_users a \<and> is_users b) \<Longrightarrow>
     viewEffect a (fold viewEffect bs s) = fold viewEffect bs (viewEffect a s)"
proof (induction bs arbitrary: s)
  case Nil
  show ?case by simp
next
  case (Cons b bs)
  have swap: "viewEffect a (viewEffect b s) = viewEffect b (viewEffect a s)"
    using Cons.prems by (intro viewEffect_commute) simp
  have "viewEffect a (fold viewEffect (b # bs) s)
      = viewEffect a (fold viewEffect bs (viewEffect b s))"
    by simp
  also have "\<dots> = fold viewEffect bs (viewEffect a (viewEffect b s))"
    using Cons.prems by (intro Cons.IH) simp
  also have "\<dots> = fold viewEffect bs (viewEffect b (viewEffect a s))"
    by (simp only: swap)
  finally show ?case by simp
qed

lemma fold_viewEffect_commute:
  assumes "\<And>x y. x \<in> set xs \<Longrightarrow> y \<in> set ys \<Longrightarrow> \<not> (is_users x \<and> is_users y)"
  shows "fold viewEffect xs (fold viewEffect ys s) = fold viewEffect ys (fold viewEffect xs s)"
  using assms
proof (induction xs arbitrary: s)
  case Nil
  show ?case by simp
next
  case (Cons x xs)
  have head: "\<forall>y \<in> set ys. \<not> (is_users x \<and> is_users y)"
    using Cons.prems [of x] by (blast intro: list.set_intros(1))
  have rest: "\<And>x' y. x' \<in> set xs \<Longrightarrow> y \<in> set ys \<Longrightarrow> \<not> (is_users x' \<and> is_users y)"
    using Cons.prems by (blast intro: list.set_intros(2))
  have "fold viewEffect (x # xs) (fold viewEffect ys s)
      = fold viewEffect xs (viewEffect x (fold viewEffect ys s))"
    by simp
  also have "\<dots> = fold viewEffect xs (fold viewEffect ys (viewEffect x s))"
    by (simp only: viewEffect_fold_commute [OF head])
  also have "\<dots> = fold viewEffect ys (fold viewEffect xs (viewEffect x s))"
    by (rule Cons.IH [OF rest])
  also have "\<dots> = fold viewEffect ys (fold viewEffect (x # xs) s)"
    by simp
  finally show ?case .
qed

lemma queries_commute:
  "fold viewEffect (queryEffects env expt metrics responses i)
     (fold viewEffect (queryEffects env expt metrics responses j) s)
   = fold viewEffect (queryEffects env expt metrics responses j)
     (fold viewEffect (queryEffects env expt metrics responses i) s)"
proof (cases "i = j")
  case True
  then show ?thesis by simp
next
  case False
  show ?thesis
  proof (rule fold_viewEffect_commute)
    fix a b
    assume "a \<in> set (queryEffects env expt metrics responses i)"
      and "b \<in> set (queryEffects env expt metrics responses j)"
    then show "\<not> (is_users a \<and> is_users b)"
      using False queryEffects_users by blast
  qed
qed

lemma stateView_completed:
  "stateView (fold (completeQuery env expt metrics responses) order initialState)
     = fold (\<lambda>i. fold viewEffect (queryEffects env expt metrics responses i)) order
         (stateView initialState)
   \<and> mergeInvariant (fold (completeQuery env expt metrics responses) order initialState)"
proof -
  have "fold (completeQuery env expt metrics responses) order st
          = fold applyEffect (concat (map (queryEffects env expt metrics responses) order)) st"
    for st
    by (simp add: completeQuery_effects fold_concat_map)
  moreover have "fold (\<lambda>i. fold viewEffect (queryEffects env expt metrics responses i)) order a
          = fold viewEffect (concat (map (queryEffects env expt metrics responses) order)) a"
    for a
    by (simp add: fold_concat_map)
  ultimately show ?thesis
    by (simp add: stateView_fold mergeInvariant_fold mergeInvariant_initial)
qed

lemma stateView_permuted:
  assumes "mset order1 = mset order2"
  shows "stateView (fold (completeQuery env expt metrics responses) order1 initialState)
       = stateView (fold (completeQuery env expt metrics responses) order2 initialState)"
proof -
  have "fold (\<lambda>i. fold viewEffect (queryEffects env expt metrics responses i)) order1
      = fold (\<lambda>i. fold viewEffect (queryEffects env expt metrics responses i)) order2"
  proof (rule fold_multiset_equiv [OF _ assms])
    fix i j
    show "(\<lambda>i. fold viewEffect (queryEffects env expt metrics responses i)) i
            \<circ> (\<lambda>i. fold viewEffect (queryEffects env expt metrics responses i)) j
        = (\<lambda>i. fold viewEffect (queryEffects env expt metrics responses i)) j
            \<circ> (\<lambda>i. fold viewEffect (queryEffects env expt metrics responses i)) i"
      by (rule ext) (simp only: comp_apply, rule queries_commute)
  qed
  then show ?thesis
    by (simp add: stateView_completed)
qed

lemma map_of_keys:
  "map_of (map (\<lambda>k. (k, f k)) ks) k = (if k \<in> set ks then Some (f k) else None)"
  by (induction ks) auto

lemma resultsOf_view:
  assumes "mergeInvariant st"
  shows "resultsView (resultsOf st) = fst (snd (stateView st))"
    and "set (map dr_dimension (resultsOf st)) = fst (stateView st)"
    and "distinct (map dr_dimension (resultsOf st))"
proof -
  have keys: "map dr_dimension (resultsOf st) = ms_keys st"
    by (simp add: resultsOf_def comp_def)
  show "set (map dr_dimension (resultsOf st)) = fst (stateView st)"
    by (simp add: keys stateView_def)
  show "distinct (map dr_dimension (resultsOf st))"
    using assms by (simp add: keys mergeInvariant_def)
  have "map_of (map (\<lambda>r. (dr_dimension r, dr_variations r)) (resultsOf st)) k
       = (if k \<in> set (ms_keys st)
          then Some (case ms_get st k of None \<Rightarrow> Map.empty | Some a \<Rightarrow> a) else None)" for k
    by (simp add: resultsOf_def comp_def map_of_keys)
  moreover have "k \<notin> set (ms_keys st) \<Longrightarrow> ms_get st k = None" for k
    using assms by (auto simp add: mergeInvariant_def)
  ultimately show "resultsView (resultsOf st) = fst (snd (stateView st))"
    by (auto simp add: resultsView_def stateView_def fun_eq_iff split: option.splits)
qed

lemma first_error_None: "first_error xs = None \<longleftrightarrow> (\<forall>x \<in> set xs. \<not> isl x)"
  by (induction xs rule: first_error.induct) simp_all

text \<open>
  C8 as stated fails: with two metric queries that both return the row for
  variation 0 of dimension \<open>All\<close>, the \<open>metrics\<close> list of the bucket is in
  the order in which the two queries complete, so the two completion orders
  give different results.
\<close>

theorem getExperimentResults_order_dependent:
  "map_sum id (\<lambda>(res, log). er_results res)
     (getExperimentResults (example_env_format ''index'' (\<lambda>sql. [example_row]))
        example_experiment example_phase example_metrics None None [0, 1, 2])
   = Inr [\<lparr>dr_dimension = Some ''All'',
            dr_variations = [Idx 0 \<mapsto>
              \<lparr>vd_variation = Index 0, vd_users = Num 12,
               vd_metrics = [\<lparr>vm_metric = ''met_1'', vm_count = Num 12, vm_mean = Num 1, vm_stddev = Num 0\<rparr>,
                             \<lparr>vm_metric = ''met_2'', vm_count = Num 12, vm_mean = Num 1, vm_stddev = Num 0\<rparr>]\<rparr>]\<rparr>]
   \<and> map_sum id (\<lambda>(res, log). er_results res)
     (getExperimentResults (example_env_format ''index'' (\<lambda>sql. [example_row]))
        example_experiment example_phase example_metrics None None [1, 0, 2])
   = Inr [\<lparr>dr_dimension = Some ''All'',
            dr_variations = [Idx 0 \<mapsto>
              \<lparr>vd_variation = Index 0, vd_users = Num 12,
               vd_metrics = [\<lparr>vm_metric = ''met_2'', vm_count = Num 12, vm_mean = Num 1, vm_stddev = Num 0\<rparr>,
                             \<lparr>vm_metric = ''met_1'', vm_count = Num 12, vm_mean = Num 1, vm_stddev = Num 0\<rparr>]\<rparr>]\<rparr>]
   \<and> map_sum id (\<lambda>(res, log). er_results res)
     (getExperimentResults (example_env_format ''index'' (\<lambda>sql. [example_row]))
        example_experiment example_phase example_metrics None None [0, 1, 2])
   \<noteq> map_sum id (\<lambda>(res, log). er_results res)
     (getExperimentResults (example_env_format ''index'' (\<lambda>sql. [example_row]))
        example_experiment example_phase example_metrics None None [1, 0, 2])"
proof -
  have first: "map_sum id (\<lambda>(res, log). er_results res)
     (getExperimentResults (example_env_format ''index'' (\<lambda>sql. [example_row]))
        example_experiment example_phase example_metrics None None [0, 1, 2])
   = Inr [\<lparr>dr_dimension = Some ''All'',
            dr_variations = [Idx 0 \<mapsto>
              \<lparr>vd_variation = Index 0, vd_users = Num 12,
               vd_metrics = [\<lparr>vm_metric = ''met_1'', vm_count = Num 12, vm_mean = Num 1, vm_stddev = Num 0\<rparr>,
                             \<lparr>vm_metric = ''met_2'', vm_count = Num 12, vm_mean = Num 1, vm_stddev = Num 0\<rparr>]\<rparr>]\<rparr>]"
    by (simp add: getExperimentResults_def experimentQueries_def example_env_format_def
          example_env_def completeQuery_def usersRow_def metricRow_def resolveVariation_def
          variationKeyMap_example unexpectedVariation_def getDimensionData_def propertyKey_def
          initialState_def resultsOf_def fld_def parseInt_field_def parseFloat_field_def parseInt_def
          parseInt_examples example_settings_def no_settings_def Let_def example_metrics_def
          example_metric_def example_row_def)
  have second: "map_sum id (\<lambda>(res, log). er_results res)
     (getExperimentResults (example_env_format ''index'' (\<lambda>sql. [example_row]))
        example_experiment example_phase example_metrics None None [1, 0, 2])
   = Inr [\<lparr>dr_dimension = Some ''All'',
            dr_variations = [Idx 0 \<mapsto>
              \<lparr>vd_variation = Index 0, vd_users = Num 12,
               vd_metrics = [\<lparr>vm_metric = ''met_2'', vm_count = Num 12, vm_mean = Num 1, vm_stddev = Num 0\<rparr>,
                             \<lparr>vm_metric = ''met_1'', vm_count = Num 12, vm_mean = Num 1, vm_stddev = Num 0\<rparr>]\<rparr>]\<rparr>]"
    by (simp add: getExperimentResults_def experimentQueries_def example_env_format_def
          example_env_def completeQuery_def usersRow_def metricRow_def resolveVariation_def
          variationKeyMap_example unexpectedVariation_def getDimensionData_def propertyKey_def
          initialState_def resultsOf_def fld_def parseInt_field_def parseFloat_field_def parseInt_def
          parseInt_examples example_settings_def no_settings_def Let_def example_metrics_def
          example_metric_def example_row_def)
  have "[Idx 0 \<mapsto> a] \<noteq> [Idx 0 \<mapsto> b]" if "a \<noteq> b" for a b :: variationData
    using that by (auto dest: map_upd_eqD1)
  then have differ: "Inr [\<lparr>dr_dimension = Some ''All'',
            dr_variations = [Idx 0 \<mapsto>
              \<lparr>vd_variation = Index 0, vd_users = Num 12,
               vd_metrics = [\<lparr>vm_metric = ''met_1'', vm_count = Num 12, vm_mean = Num 1, vm_stddev = Num 0\<rparr>,
                             \<lparr>vm_metric = ''met_2'', vm_count = Num 12, vm_mean = Num 1, vm_stddev = Num 0\<rparr>]\<rparr>]\<rparr>]
     \<noteq> (Inr [\<lparr>dr_dimension = Some ''All'',
            dr_variations = [Idx 0 \<mapsto>
              \<lparr>vd_variation = Index 0, vd_users = Num 12,
               vd_metrics = [\<lparr>vm_metric = ''met_2'', vm_count = Num 12, vm_mean = Num 1, vm_stddev = Num 0\<rparr>,
                             \<lparr>vm_metric = ''met_1'', vm_count = Num 12, vm_mean = Num 1, vm_stddev = Num 0\<rparr>]\<rparr>]\<rparr>]
          :: string + dimensionResult list)"
    by simp
  show ?thesis
    unfolding first second using differ by simp
qed

text \<open>
  C8, amended. For two completion orders of the same queries, either both
  calls are rejected, or both return and the two results agree up to the
  order of arrival: they have the same dimension values (in some order), and
  for each dimension value and each variation entry the same variation index,
  the same user count and the same per-metric summaries as a multiset; the
  query text is identical and the same diagnostics are written.
\<close>

theorem getExperimentResults_completion_order:
  assumes "mset order1 = mset [0..<length metrics + 1]"
    and "mset order2 = mset [0..<length metrics + 1]"
  shows "(\<exists>e1 e2. getExperimentResults env expt phase metrics activationMetric dimn order1 = Inl e1
               \<and> getExperimentResults env expt phase metrics activationMetric dimn order2 = Inl e2)
       \<or> (\<exists>res1 log1 res2 log2.
             getExperimentResults env expt phase metrics activationMetric dimn order1 = Inr (res1, log1)
           \<and> getExperimentResults env expt phase metrics activationMetric dimn order2 = Inr (res2, log2)
           \<and> resultsView (er_results res1) = resultsView (er_results res2)
           \<and> mset (map dr_dimension (er_results res1)) = mset (map dr_dimension (er_results res2))
           \<and> er_query res1 = er_query res2
           \<and> mset log1 = mset log2)"
proof -
  define query where "query = experimentQueries env expt phase metrics activationMetric dimn"
  define answers where "answers = map (runQuery env) query"
  define final where
    "final order = fold (completeQuery env expt metrics (map response_rows answers)) order initialState"
    for order
  have perm: "mset order1 = mset order2"
    using assms by simp
  then have same_set: "set order1 = set order2"
    by (rule mset_eq_setD)
  have view: "stateView (final order1) = stateView (final order2)"
    unfolding final_def by (rule stateView_permuted [OF perm])
  have inv: "mergeInvariant (final order)" for order
    unfolding final_def by (simp add: stateView_completed)
  show ?thesis
  proof (cases "first_error (map (\<lambda>i. answers ! i) order1)")
    case None
    then have "first_error (map (\<lambda>i. answers ! i) order2) = None"
      using same_set by (simp add: first_error_None)
    with None have r1: "getExperimentResults env expt phase metrics activationMetric dimn order1
          = Inr (\<lparr>er_results = resultsOf (final order1),
                   er_query = js_join '';\<newline>\<newline>'' (map (sqlFormat env) query) @ '';''\<rparr>,
                 ms_log (final order1))"
      and r2: "getExperimentResults env expt phase metrics activationMetric dimn order2
          = Inr (\<lparr>er_results = resultsOf (final order2),
                   er_query = js_join '';\<newline>\<newline>'' (map (sqlFormat env) query) @ '';''\<rparr>,
                 ms_log (final order2))"
      by (simp_all add: getExperimentResults_def Let_def query_def answers_def final_def)
    have "resultsView (resultsOf (final order1)) = resultsView (resultsOf (final order2))"
      using view by (simp add: resultsOf_view(1) [OF inv])
    moreover have "mset (map dr_dimension (resultsOf (final order1)))
                 = mset (map dr_dimension (resultsOf (final order2)))"
    proof -
      have "set (map dr_dimension (resultsOf (final order1)))
          = set (map dr_dimension (resultsOf (final order2)))"
        using view by (simp only: resultsOf_view(2) [OF inv])
      then show ?thesis
        using set_eq_iff_mset_eq_distinct
                [OF resultsOf_view(3) [OF inv [of order1]] resultsOf_view(3) [OF inv [of order2]]]
        by blast
    qed
    moreover have "mset (ms_log (final order1)) = mset (ms_log (final order2))"
      using view by (simp add: stateView_def)
    ultimately show ?thesis
      using r1 r2 by simp
  next
    case (Some e1)
    then have "first_error (map (\<lambda>i. answers ! i) order1) \<noteq> None"
      by simp
    then have "\<exists>i \<in> set order1. isl (answers ! i)"
      by (simp add: first_error_None)
    then have "\<exists>i \<in> set order2. isl (answers ! i)"
      using same_set by simp
    then have "first_error (map (\<lambda>i. answers ! i) order2) \<noteq> None"
      by (simp add: first_error_None)
    then obtain e2 where "first_error (map (\<lambda>i. answers ! i) order2) = Some e2"
      by auto
    with Some show ?thesis
      by (simp add: getExperimentResults_def Let_def query_def answers_def)
  qed
qed

theorem getExperimentResults_completion_order_witness:
  "\<exists>res1 log1 res2 log2.
      getExperimentResults (example_env_format ''index'' (\<lambda>sql. [example_row]))
        example_experiment example_phase example_metrics None None [0, 1, 2] = Inr (res1, log1)
    \<and> getExperimentResults (example_env_format ''index'' (\<lambda>sql. [example_row]))
        example_experiment example_phase example_metrics None None [1, 0, 2] = Inr (res2, log2)
    \<and> resultsView (er_results res1) = resultsView (er_results res2)
    \<and> mset (map dr_dimension (er_results res1)) = mset (map dr_dimension (er_results res2))
    \<and> er_query res1 = er_query res2
    \<and> mset log1 = mset log2"
proof -
  have order1: "mset [0, 1, 2] = mset [0..<length example_metrics + 1]"
    by (simp add: example_metrics_def upt_rec)
  have order2: "mset [1, 0, 2] = mset [0..<length example_metrics + 1]"
    by (simp add: example_metrics_def upt_rec)
  have returns: "getExperimentResults (example_env_format ''index'' (\<lambda>sql. [example_row]))
        example_experiment example_phase example_metrics None None [0, 1, 2] \<noteq> Inl e" for e
    by (simp add: getExperimentResults_def experimentQueries_def example_env_format_def
          example_env_def example_metrics_def Let_def)
  show ?thesis
    using getExperimentResults_completion_order
            [OF order1 order2, of "example_env_format ''index'' (\<lambda>sql. [example_row])"
               example_experiment example_phase None None]
          returns
    by blast
qed

end
